theory Spec2Isabelle
  imports Complex_Main "HOL-Library.Multiset"
begin

section \<open>Python values\<close>

text \<open>
  A Python float is a finite number or NaN. Finite floats are modelled as exact
  rationals: rounding of the binary representation and the two infinities are left
  out of the model.
\<close>

datatype pyfloat = Fin rat | NaN

text \<open>The values a JSON-decoded intent dictionary can hold.\<close>

datatype pyval =
    PNone
  | PBool bool
  | PInt int
  | PFloat pyfloat
  | PStr string
  | PList "pyval list"
  | PDict "(string \<times> pyval) list"

type_synonym intent = "string \<rightharpoonup> pyval"

datatype py_error = TypeError | AttributeError | KeyError | IndexError

text \<open>Truth value of a Python object, as \<open>or\<close> and \<open>if\<close> test it.\<close>

fun truthy :: "pyval \<Rightarrow> bool" where
  "truthy PNone = False"
| "truthy (PBool b) = b"
| "truthy (PInt i) = (i \<noteq> 0)"
| "truthy (PFloat (Fin r)) = (r \<noteq> 0)"
| "truthy (PFloat NaN) = True"
| "truthy (PStr s) = (s \<noteq> [])"
| "truthy (PList xs) = (xs \<noteq> [])"
| "truthy (PDict kvs) = (kvs \<noteq> [])"

text \<open>\<open>d.get(k)\<close>: the value, or \<open>None\<close> when the key is absent.\<close>

definition dict_get :: "intent \<Rightarrow> string \<Rightarrow> pyval" where
  "dict_get d k = (case d k of None \<Rightarrow> PNone | Some v \<Rightarrow> v)"

section \<open>Strings\<close>

text \<open>\<open>str.lower\<close> on ASCII letters (characters are bytes here).\<close>

definition lower_char :: "char \<Rightarrow> char" where
  "lower_char c =
     (case map_of (zip ''ABCDEFGHIJKLMNOPQRSTUVWXYZ'' ''abcdefghijklmnopqrstuvwxyz'') c of
        Some d \<Rightarrow> d
      | None \<Rightarrow> c)"

definition lower :: "string \<Rightarrow> string" where
  "lower s = map lower_char s"

fun startswith :: "string \<Rightarrow> string \<Rightarrow> bool" where
  "startswith [] s = True"
| "startswith (k # ks) [] = False"
| "startswith (k # ks) (c # cs) = (k = c \<and> startswith ks cs)"

text \<open>\<open>kw in s\<close> for strings: \<open>kw\<close> occurs as a contiguous substring of \<open>s\<close>.\<close>

fun contains :: "string \<Rightarrow> string \<Rightarrow> bool" where
  "contains [] kw = (kw = [])"
| "contains (c # cs) kw = (startswith kw (c # cs) \<or> contains cs kw)"

text \<open>\<open>str.isspace\<close> for one ASCII character, and \<open>str.strip\<close>.\<close>

definition is_space :: "char \<Rightarrow> bool" where
  "is_space c =
     (c \<in> set [CHR 0x20, CHR 0x09, CHR 0x0A, CHR 0x0B, CHR 0x0C, CHR 0x0D,
                CHR 0x1C, CHR 0x1D, CHR 0x1E, CHR 0x1F])"

definition strip :: "string \<Rightarrow> string" where
  "strip s = rev (dropWhile is_space (rev (dropWhile is_space s)))"

section \<open>Weight resolver (reasoner_agent.py)\<close>

text \<open>
  The weight dictionary keeps its insertion order, so it is an association list.
\<close>

type_synonym weights = "(string \<times> rat) list"

text \<open>
  Lines 37-41 of \<open>_compute_weights\<close>: the lower-cased goal list.
  \<open>intent.get("primary_goals") or []\<close> replaces every falsy value by the empty list;
  a bare string is one goal; a list is mapped through \<open>str\<close>; iterating a dictionary
  yields its keys; iterating a number or a boolean raises \<open>TypeError\<close>.
  \<open>py_str\<close> is Python's \<open>str\<close> on values that are not strings.
\<close>

definition str_of :: "(pyval \<Rightarrow> string) \<Rightarrow> pyval \<Rightarrow> string" where
  "str_of py_str v = (case v of PStr s \<Rightarrow> s | _ \<Rightarrow> py_str v)"

definition goals_raw :: "intent \<Rightarrow> pyval" where
  "goals_raw intent =
     (let g = dict_get intent ''primary_goals'' in if truthy g then g else PList [])"

definition lowered_goals :: "(pyval \<Rightarrow> string) \<Rightarrow> intent \<Rightarrow> py_error + string list" where
  "lowered_goals py_str intent =
     (case goals_raw intent of
        PStr s \<Rightarrow> Inr [lower s]
      | PList gs \<Rightarrow> Inr (map (\<lambda>g. lower (str_of py_str g)) gs)
      | PDict kvs \<Rightarrow> Inr (map (\<lambda>kv. lower (fst kv)) kvs)
      | _ \<Rightarrow> Inl TypeError)"

text \<open>Lines 44-57: the base weights of a category.\<close>

definition base_weights :: "string \<Rightarrow> weights" where
  "base_weights category =
     (if category \<in> {''laptop'', ''tablet'', ''phone''}
      then [(''price'', 30 / 100), (''performance'', 40 / 100),
            (''battery'', 30 / 100), (''screen'', 0)]
      else [(''price'', 40 / 100), (''performance'', 10 / 100),
            (''battery'', 0), (''screen'', 50 / 100)])"

text \<open>Lines 59-61: \<open>bump\<close>, with its default increment.\<close>

definition delta :: rat where
  "delta = 15 / 100"

definition bump :: "weights \<Rightarrow> string \<Rightarrow> weights" where
  "bump w key = map (\<lambda>(k, v). if k = key then (k, v + delta) else (k, v)) w"

text \<open>Lines 65-72: the four keyword tests applied to one lower-cased goal.\<close>

definition wants_performance :: "string \<Rightarrow> bool" where
  "wants_performance g =
     (contains g ''performance'' \<or> contains g ''speed'' \<or> contains g ''gaming'')"

definition wants_battery :: "string \<Rightarrow> bool" where
  "wants_battery g =
     (contains g ''battery'' \<or> contains g ''long life'' \<or> contains g ''all day'')"

definition wants_price :: "string \<Rightarrow> bool" where
  "wants_price g =
     (contains g ''budget'' \<or> contains g ''cheap'' \<or> contains g ''affordable''
      \<or> contains g ''price'')"

definition wants_screen :: "string \<Rightarrow> bool" where
  "wants_screen g =
     (contains g ''screen'' \<or> contains g ''display'' \<or> contains g ''bigger'')"

text \<open>The body of the loop over the goals, and the loop.\<close>

definition bump_goal :: "weights \<Rightarrow> string \<Rightarrow> weights" where
  "bump_goal w g =
     (let w1 = (if wants_performance g then bump w ''performance'' else w);
          w2 = (if wants_battery g then bump w1 ''battery'' else w1);
          w3 = (if wants_price g then bump w2 ''price'' else w2);
          w4 = (if wants_screen g then bump w3 ''screen'' else w3)
      in w4)"

definition bump_goals :: "weights \<Rightarrow> string list \<Rightarrow> weights" where
  "bump_goals w goals = foldl bump_goal w goals"

text \<open>Lines 75-79: renormalisation, with the equal split when the total is not positive.\<close>

definition renormalize :: "weights \<Rightarrow> weights" where
  "renormalize w =
     (let total = sum_list (map snd w)
      in if total \<le> 0 then map (\<lambda>(k, v). (k, 1 / of_nat (length w))) w
         else map (\<lambda>(k, v). (k, v / total)) w)"

text \<open>The weights as they stand after the loop, before renormalisation.\<close>

definition accumulated_weights ::
  "(pyval \<Rightarrow> string) \<Rightarrow> intent \<Rightarrow> string \<Rightarrow> py_error + weights" where
  "accumulated_weights py_str intent category =
     (case lowered_goals py_str intent of
        Inl e \<Rightarrow> Inl e
      | Inr goals \<Rightarrow> Inr (bump_goals (base_weights category) goals))"

definition compute_weights ::
  "(pyval \<Rightarrow> string) \<Rightarrow> intent \<Rightarrow> string \<Rightarrow> py_error + weights" where
  "compute_weights py_str intent category =
     (case accumulated_weights py_str intent category of
        Inl e \<Rightarrow> Inl e
      | Inr w \<Rightarrow> Inr (renormalize w))"

section \<open>Data frames\<close>

text \<open>
  A cell of a product table holds a float (NaN when the value is missing) or text.
  A row maps column names to cells; a frame is its column names and its rows in
  index order. Series are lists in the same order.
\<close>

datatype cell = Num pyfloat | Str string

type_synonym row = "string \<rightharpoonup> cell"

record dataframe =
  columns :: "string list"
  rows :: "row list"

definition cell_at :: "row \<Rightarrow> string \<Rightarrow> cell" where
  "cell_at r c = (case r c of Some v \<Rightarrow> v | None \<Rightarrow> Num NaN)"

definition column :: "dataframe \<Rightarrow> string \<Rightarrow> cell list" where
  "column df c = map (\<lambda>r. cell_at r c) (rows df)"

text \<open>\<open>df.empty\<close>: one of the two axes has length zero.\<close>

definition df_empty :: "dataframe \<Rightarrow> bool" where
  "df_empty df = (rows df = [] \<or> columns df = [])"

text \<open>
  \<open>pd.to_numeric(..., errors="coerce")\<close> on one cell. \<open>pd_num\<close> is the library's
  parser for text cells; it yields NaN for text that is not a number.
\<close>

definition to_numeric :: "(string \<Rightarrow> pyfloat) \<Rightarrow> cell \<Rightarrow> pyfloat" where
  "to_numeric pd_num c = (case c of Num f \<Rightarrow> f | Str s \<Rightarrow> pd_num s)"

section \<open>Feature normaliser (reasoner_agent.py)\<close>

text \<open>\<open>math.isclose(a, b)\<close> with its defaults \<open>rel_tol = 1e-09\<close>, \<open>abs_tol = 0.0\<close>.\<close>

definition rel_tol :: rat where
  "rel_tol = 1 / 10 ^ 9"

definition abs_tol :: rat where
  "abs_tol = 0"

definition isclose :: "rat \<Rightarrow> rat \<Rightarrow> bool" where
  "isclose a b =
     (a = b \<or> \<bar>b - a\<bar> \<le> \<bar>rel_tol * b\<bar> \<or> \<bar>b - a\<bar> \<le> \<bar>rel_tol * a\<bar> \<or> \<bar>b - a\<bar> \<le> abs_tol)"

text \<open>The values of a coerced series that are not NaN.\<close>

fun usable :: "pyfloat list \<Rightarrow> rat list" where
  "usable [] = []"
| "usable (Fin x # fs) = x # usable fs"
| "usable (NaN # fs) = usable fs"

definition normalize_series :: "(string \<Rightarrow> pyfloat) \<Rightarrow> cell list \<Rightarrow> bool \<Rightarrow> rat list" where
  "normalize_series pd_num series higher_is_better =
     (let s = map (to_numeric pd_num) series in
      if usable s = [] then replicate (length s) (1 / 2)
      else
        let min_val = Min (set (usable s)); max_val = Max (set (usable s)) in
        if isclose min_val max_val then replicate (length s) (1 / 2)
        else map (\<lambda>f. case f of
                    NaN \<Rightarrow> 1 / 2
                  | Fin x \<Rightarrow>
                      (let norm = (x - min_val) / (max_val - min_val)
                       in if higher_is_better then norm else 1 - norm)) s)"

section \<open>Scorer (reasoner_agent.py)\<close>

text \<open>Python's \<open>round\<close> to an integer: halves go to the even neighbour.\<close>

definition py_round :: "rat \<Rightarrow> int" where
  "py_round x =
     (let f = \<lfloor>x\<rfloor>; d = x - of_int f
      in if d < 1 / 2 then f else if 1 / 2 < d then f + 1 else if even f then f else f + 1)"

text \<open>Lines 134-138: the category of the first row, or \<open>laptop\<close> without the column.\<close>

definition first_category :: "dataframe \<Rightarrow> py_error + string" where
  "first_category df =
     (if ''category'' \<in> set (columns df)
      then (case rows df of
              [] \<Rightarrow> Inl IndexError
            | r # _ \<Rightarrow>
                (case cell_at r ''category'' of
                   Str s \<Rightarrow> Inr (lower (strip s))
                 | Num f \<Rightarrow> Inl AttributeError))
      else Inr ''laptop'')"

text \<open>A normalised column, or the neutral series when the frame has no such column.\<close>

definition feature_score ::
  "(string \<Rightarrow> pyfloat) \<Rightarrow> dataframe \<Rightarrow> string \<Rightarrow> bool \<Rightarrow> rat list" where
  "feature_score pd_num df c higher_is_better =
     (if c \<in> set (columns df) then normalize_series pd_num (column df c) higher_is_better
      else replicate (length (rows df)) (1 / 2))"

definition price_score :: "(string \<Rightarrow> pyfloat) \<Rightarrow> dataframe \<Rightarrow> rat list" where
  "price_score pd_num df = feature_score pd_num df ''price_usd'' False"

definition performance_score :: "(string \<Rightarrow> pyfloat) \<Rightarrow> dataframe \<Rightarrow> string \<Rightarrow> rat list" where
  "performance_score pd_num df cat =
     (if cat \<in> {''laptop'', ''tablet'', ''phone''}
      then
        (let ram_score = feature_score pd_num df ''ram_gb'' True;
             storage_score = feature_score pd_num df ''storage_gb'' True
         in map (\<lambda>i. 7 / 10 * (ram_score ! i) + 3 / 10 * (storage_score ! i))
              [0 ..< length (rows df)])
      else replicate (length (rows df)) (1 / 2))"

definition battery_score :: "(string \<Rightarrow> pyfloat) \<Rightarrow> dataframe \<Rightarrow> rat list" where
  "battery_score pd_num df = feature_score pd_num df ''battery_wh'' True"

definition screen_score :: "(string \<Rightarrow> pyfloat) \<Rightarrow> dataframe \<Rightarrow> rat list" where
  "screen_score pd_num df = feature_score pd_num df ''screen_inches'' True"

text \<open>\<open>weights[k]\<close>: a missing key raises \<open>KeyError\<close>.\<close>

definition weight :: "weights \<Rightarrow> string \<Rightarrow> py_error + rat" where
  "weight w k = (case map_of w k of Some v \<Rightarrow> Inr v | None \<Rightarrow> Inl KeyError)"

text \<open>Lines 183-188: the column \<open>score_continuous\<close>, one value per row.\<close>

definition score_continuous ::
  "(string \<Rightarrow> pyfloat) \<Rightarrow> dataframe \<Rightarrow> string \<Rightarrow> weights \<Rightarrow> py_error + rat list" where
  "score_continuous pd_num df cat w =
     (case weight w ''price'' of Inl e \<Rightarrow> Inl e | Inr w_price \<Rightarrow>
     (case weight w ''performance'' of Inl e \<Rightarrow> Inl e | Inr w_performance \<Rightarrow>
     (case weight w ''battery'' of Inl e \<Rightarrow> Inl e | Inr w_battery \<Rightarrow>
     (case weight w ''screen'' of Inl e \<Rightarrow> Inl e | Inr w_screen \<Rightarrow>
        Inr (map (\<lambda>i. w_price * (price_score pd_num df ! i)
                     + w_performance * (performance_score pd_num df cat ! i)
                     + w_battery * (battery_score pd_num df ! i)
                     + w_screen * (screen_score pd_num df ! i))
               [0 ..< length (rows df)])))))"

text \<open>
  The frame after the assignment of the new column: every row carries its score in
  the column \<open>score_continuous\<close>; the score is kept beside the row as well, as the
  key that \<open>sort_values\<close> orders by and that line 202 reads back.
\<close>

type_synonym scored_row = "rat \<times> row"

definition with_scores :: "dataframe \<Rightarrow> rat list \<Rightarrow> scored_row list" where
  "with_scores df scores =
     map (\<lambda>(r, s). (s, r(''score_continuous'' \<mapsto> Num (Fin s)))) (zip (rows df) scores)"

text \<open>Lines 194-198: the goal list handed to the explanation request.\<close>

definition goals_list :: "(pyval \<Rightarrow> string) \<Rightarrow> intent \<Rightarrow> py_error + string list" where
  "goals_list py_str intent =
     (case goals_raw intent of
        PStr s \<Rightarrow> Inr [s]
      | PList gs \<Rightarrow> Inr (map (str_of py_str) gs)
      | PDict kvs \<Rightarrow> Inr (map fst kvs)
      | _ \<Rightarrow> Inl TypeError)"

text \<open>
  \<open>_build_explanation\<close>: the prompt is a fixed text around four interpolated values,
  which stand for it here. \<open>chat_llm\<close> is the external text generator; \<open>Inl\<close> is the
  message of the exception it raised.
\<close>

record prompt =
  p_goals_text :: string
  p_category :: string
  p_row :: row
  p_score :: int

fun join_comma :: "string list \<Rightarrow> string" where
  "join_comma [] = []"
| "join_comma [g] = g"
| "join_comma (g # gs) = g @ '', '' @ join_comma gs"

definition prompt_for :: "row \<Rightarrow> rat \<Rightarrow> string \<Rightarrow> string list \<Rightarrow> prompt" where
  "prompt_for r score cat goals =
     (let goals_text = (if goals \<noteq> [] then join_comma goals else ''balanced everyday use'')
      in \<lparr>p_goals_text = goals_text, p_category = cat, p_row = r,
          p_score = py_round (score * 100)\<rparr>)"

definition build_explanation ::
  "(prompt \<Rightarrow> string + string) \<Rightarrow> row \<Rightarrow> rat \<Rightarrow> string \<Rightarrow> string list \<Rightarrow> string + string" where
  "build_explanation chat_llm r score cat goals = chat_llm (prompt_for r score cat goals)"

record result_item =
  item_id :: "cell option"
  item_title :: cell
  item_score :: int
  item_explanation :: string

record ranking =
  r_results :: "result_item list"
  r_category :: "string option"
  r_weights :: weights

text \<open>Truth value of \<open>row.get(k)\<close>: an absent column gives \<open>None\<close>; NaN is true.\<close>

fun cell_truthy :: "cell option \<Rightarrow> bool" where
  "cell_truthy None = False"
| "cell_truthy (Some (Str s)) = (s \<noteq> [])"
| "cell_truthy (Some (Num (Fin x))) = (x \<noteq> 0)"
| "cell_truthy (Some (Num NaN)) = True"

text \<open>\<open>a or b\<close> on the result of \<open>row.get\<close>.\<close>

definition or_else :: "cell option \<Rightarrow> cell \<Rightarrow> cell" where
  "or_else a b = (case a of Some v \<Rightarrow> if cell_truthy a then v else b | None \<Rightarrow> b)"

definition title_of :: "row \<Rightarrow> cell" where
  "title_of r = or_else (r ''title'') (or_else (r ''model'') (Str ''Unknown product''))"

text \<open>Lines 203-206: the \<open>try\<close> around the explanation request.\<close>

definition explanation_or_placeholder :: "string + string \<Rightarrow> string" where
  "explanation_or_placeholder outcome =
     (case outcome of
        Inr text \<Rightarrow> text
      | Inl e \<Rightarrow> ''(Could not generate explanation: '' @ e @ '')'')"

text \<open>Lines 202-215: the body of the loop over the sorted rows.\<close>

definition make_result ::
  "(prompt \<Rightarrow> string + string) \<Rightarrow> string \<Rightarrow> string list \<Rightarrow> scored_row \<Rightarrow> result_item" where
  "make_result chat_llm cat goals sr =
     (let r = snd sr;
          score_float = fst sr;
          explanation =
            explanation_or_placeholder (build_explanation chat_llm r score_float cat goals)
      in \<lparr>item_id = r ''id'', item_title = title_of r,
          item_score = py_round (score_float * 100), item_explanation = explanation\<rparr>)"

text \<open>Line 191: the frame sorted best to worst; \<open>sort_values\<close> is the library's sort.\<close>

definition ranked_rows ::
  "(scored_row list \<Rightarrow> scored_row list) \<Rightarrow> dataframe \<Rightarrow> rat list \<Rightarrow> scored_row list" where
  "ranked_rows sort_values df scores = sort_values (with_scores df scores)"

definition rank_products ::
  "(pyval \<Rightarrow> string) \<Rightarrow> (string \<Rightarrow> pyfloat) \<Rightarrow> (scored_row list \<Rightarrow> scored_row list) \<Rightarrow>
   (prompt \<Rightarrow> string + string) \<Rightarrow> intent \<Rightarrow> dataframe option \<Rightarrow> py_error + ranking" where
  "rank_products py_str pd_num sort_values chat_llm intent products =
     (case products of
        None \<Rightarrow> Inr \<lparr>r_results = [], r_category = None, r_weights = []\<rparr>
      | Some df \<Rightarrow>
          if df_empty df then Inr \<lparr>r_results = [], r_category = None, r_weights = []\<rparr>
          else
            (case first_category df of Inl e \<Rightarrow> Inl e | Inr cat \<Rightarrow>
            (case compute_weights py_str intent cat of Inl e \<Rightarrow> Inl e | Inr w \<Rightarrow>
            (case score_continuous pd_num df cat w of Inl e \<Rightarrow> Inl e | Inr scores \<Rightarrow>
            (case goals_list py_str intent of Inl e \<Rightarrow> Inl e | Inr goals \<Rightarrow>
              Inr \<lparr>r_results =
                     map (make_result chat_llm cat goals) (ranked_rows sort_values df scores),
                   r_category = Some cat, r_weights = w\<rparr>)))))"

section \<open>Catalog filter (retrieval_agent.py)\<close>

definition CATEGORY_KEYWORDS :: "(string \<times> string list) list" where
  "CATEGORY_KEYWORDS =
     [(''laptop'', [''laptop'', ''notebook'', ''ultrabook'']),
      (''phone'', [''phone'', ''smartphone'', ''mobile'']),
      (''tablet'', [''tablet'', ''ipad'', ''tab'']),
      (''monitor'', [''monitor'', ''screen'', ''display''])]"

text \<open>
  \<open>_get_float\<close>: the first key whose value is present, not \<open>None\<close>, and parses.
  \<open>py_float\<close> is Python's \<open>float\<close> on a string, \<open>None\<close> when it raises.
\<close>

definition remove_dollar :: "string \<Rightarrow> string" where
  "remove_dollar s = filter (\<lambda>c. c \<noteq> CHR ''$'') s"

fun get_float ::
  "(pyval \<Rightarrow> string) \<Rightarrow> (string \<Rightarrow> pyfloat option) \<Rightarrow> intent \<Rightarrow> string list \<Rightarrow> pyfloat option"
where
  "get_float py_str py_float intent [] = None"
| "get_float py_str py_float intent (k # ks) =
     (case intent k of
        None \<Rightarrow> get_float py_str py_float intent ks
      | Some v \<Rightarrow>
          if v = PNone then get_float py_str py_float intent ks
          else
            (case py_float (strip (remove_dollar (str_of py_str v))) of
               Some f \<Rightarrow> Some f
             | None \<Rightarrow> get_float py_str py_float intent ks))"

text \<open>\<open>detect_category\<close>, step 1: an explicit, recognised category in the intent.\<close>

fun category_from_intent :: "intent \<Rightarrow> string list \<Rightarrow> string option" where
  "category_from_intent intent [] = None"
| "category_from_intent intent (key # keys) =
     (case dict_get intent key of
        PStr val \<Rightarrow>
          if strip val \<noteq> [] \<and> lower (strip val) \<in> set (map fst CATEGORY_KEYWORDS)
          then Some (lower (strip val))
          else category_from_intent intent keys
      | _ \<Rightarrow> category_from_intent intent keys)"

text \<open>Step 2: the first category one of whose keywords occurs in the query.\<close>

fun category_from_query :: "string \<Rightarrow> (string \<times> string list) list \<Rightarrow> string option" where
  "category_from_query q [] = None"
| "category_from_query q ((cat, keywords) # rest) =
     (if list_ex (contains q) keywords then Some cat else category_from_query q rest)"

definition detect_category :: "intent \<Rightarrow> string option \<Rightarrow> string" where
  "detect_category intent user_query =
     (case category_from_intent intent [''category'', ''device_type'', ''product_type''] of
        Some c \<Rightarrow> c
      | None \<Rightarrow>
          (let q = lower (case user_query of None \<Rightarrow> [] | Some u \<Rightarrow> u)
           in case category_from_query q CATEGORY_KEYWORDS of
                Some c \<Rightarrow> c
              | None \<Rightarrow> ''laptop''))"

text \<open>Comparison of floats: every comparison with NaN is false.\<close>

fun float_le :: "pyfloat \<Rightarrow> pyfloat \<Rightarrow> bool" where
  "float_le (Fin a) (Fin b) = (a \<le> b)"
| "float_le _ _ = False"

definition fillna0 :: "pyfloat \<Rightarrow> pyfloat" where
  "fillna0 f = (case f of NaN \<Rightarrow> Fin 0 | Fin x \<Rightarrow> Fin x)"

text \<open>
  The numeric columns of the catalog are coerced when the module is loaded (lines
  27-30), so a numeric cell is read through \<open>to_numeric\<close>.
\<close>

definition numeric_at :: "(string \<Rightarrow> pyfloat) \<Rightarrow> row \<Rightarrow> string \<Rightarrow> pyfloat" where
  "numeric_at pd_num r c = to_numeric pd_num (cell_at r c)"

definition category_rows :: "dataframe \<Rightarrow> string \<Rightarrow> row list" where
  "category_rows catalog cat = filter (\<lambda>r. cell_at r ''category'' = Str cat) (rows catalog)"

text \<open>One optional filter of a numeric column by a lower bound, missing values as 0.\<close>

definition at_least ::
  "(string \<Rightarrow> pyfloat) \<Rightarrow> string list \<Rightarrow> pyfloat option \<Rightarrow> string \<Rightarrow> row list \<Rightarrow> row list" where
  "at_least pd_num cols bound c df =
     (case bound of
        None \<Rightarrow> df
      | Some m \<Rightarrow>
          if c \<in> set cols then filter (\<lambda>r. float_le m (fillna0 (numeric_at pd_num r c))) df
          else df)"

text \<open>Lines 95-117: the budget, RAM, storage and battery filters, in this order.\<close>

definition numeric_filters ::
  "(pyval \<Rightarrow> string) \<Rightarrow> (string \<Rightarrow> pyfloat option) \<Rightarrow> (string \<Rightarrow> pyfloat) \<Rightarrow>
   string list \<Rightarrow> intent \<Rightarrow> row list \<Rightarrow> row list" where
  "numeric_filters py_str py_float pd_num cols intent df =
     (let budget_max =
            get_float py_str py_float intent
              [''budget_max'', ''max_price'', ''budget'', ''price_cap''];
          df1 = (case budget_max of
                   None \<Rightarrow> df
                 | Some b \<Rightarrow>
                     if ''price_usd'' \<in> set cols
                     then filter (\<lambda>r. float_le (numeric_at pd_num r ''price_usd'') b) df
                     else df);
          min_ram =
            get_float py_str py_float intent
              [''min_ram_gb'', ''ram_min'', ''ram_gb_min'', ''min_ram''];
          df2 = at_least pd_num cols min_ram ''ram_gb'' df1;
          min_storage =
            get_float py_str py_float intent
              [''min_storage_gb'', ''storage_min'', ''min_storage''];
          df3 = at_least pd_num cols min_storage ''storage_gb'' df2;
          min_battery =
            get_float py_str py_float intent
              [''min_battery_wh'', ''battery_min'', ''battery_wh_min''];
          df4 = at_least pd_num cols min_battery ''battery_wh'' df3
      in df4)"

text \<open>
  \<open>filter_products\<close> over the loaded catalog \<open>_catalog_df\<close>. A catalog without the
  column \<open>category\<close> raises \<open>KeyError\<close> at line 93.
\<close>

definition filter_products ::
  "(pyval \<Rightarrow> string) \<Rightarrow> (string \<Rightarrow> pyfloat option) \<Rightarrow> (string \<Rightarrow> pyfloat) \<Rightarrow>
   dataframe \<Rightarrow> intent \<Rightarrow> string option \<Rightarrow> py_error + dataframe" where
  "filter_products py_str py_float pd_num catalog intent user_query =
     (if ''category'' \<notin> set (columns catalog) then Inl KeyError
      else
        (let cat = detect_category intent user_query;
             df = category_rows catalog cat;
             df' = numeric_filters py_str py_float pd_num (columns catalog) intent df;
             filtered = \<lparr>columns = columns catalog, rows = df'\<rparr>
         in if df_empty filtered
            then Inr \<lparr>columns = columns catalog, rows = category_rows catalog cat\<rparr>
            else Inr filtered))"

section \<open>Properties stated over the model\<close>

text \<open>The goal field is absent, \<open>None\<close>, a bare string or a list.\<close>

definition goal_field_ok :: "intent \<Rightarrow> bool" where
  "goal_field_ok intent =
     (case intent ''primary_goals'' of
        None \<Rightarrow> True
      | Some PNone \<Rightarrow> True
      | Some (PStr s) \<Rightarrow> True
      | Some (PList gs) \<Rightarrow> True
      | Some _ \<Rightarrow> False)"

text \<open>A lower-cased goal matches the keyword group of a criterion.\<close>

definition matches :: "string \<Rightarrow> string \<Rightarrow> bool" where
  "matches k g =
     (k = ''performance'' \<and> wants_performance g \<or> k = ''battery'' \<and> wants_battery g
      \<or> k = ''price'' \<and> wants_price g \<or> k = ''screen'' \<and> wants_screen g)"

definition hits :: "string \<Rightarrow> string list \<Rightarrow> nat" where
  "hits k goals = length (filter (matches k) goals)"

text \<open>
  What the library documents of \<open>sort_values(..., ascending=False)\<close> with its default
  sorting kind: the rows come back rearranged, in non-increasing order of the key.
\<close>

definition sorts_descending :: "(scored_row list \<Rightarrow> scored_row list) \<Rightarrow> bool" where
  "sorts_descending sort_values =
     (\<forall>xs. mset (sort_values xs) = mset xs
           \<and> sorted_wrt (\<lambda>a b. fst b \<le> fst a) (sort_values xs))"

text \<open>
  A sort that meets it: \<open>stable_descending\<close> keeps rows of equal score in input order.
\<close>

definition stable_descending :: "scored_row list \<Rightarrow> scored_row list" where
  "stable_descending xs = rev (sort_key fst (rev xs))"

text \<open>
  \<open>sort_values(..., ascending=False)\<close> as the library carries it out: the score column is
  reversed, \<open>argsort\<close> orders the reversed column ascending, the positions are mapped
  back to the frame and the outcome is reversed again; the rows are taken in that
  order. \<open>argsort\<close> is numpy's index sort of the default kind.
\<close>

definition nargsort_descending :: "(rat list \<Rightarrow> nat list) \<Rightarrow> scored_row list \<Rightarrow> scored_row list" where
  "nargsort_descending argsort xs =
     (let non_nans = rev (map fst xs);
          non_nan_idx = rev [0 ..< length xs];
          indexer = rev (map (\<lambda>j. non_nan_idx ! j) (argsort non_nans))
      in map (\<lambda>i. xs ! i) indexer)"



text \<open>
  The index sort of the default kind as numpy's vectorised kernel for 64-bit keys
  carries it out on processors with AVX-512, for a column of at most eight keys: the keys fill one register of eight lanes, free lanes hold the
  largest value, and six compare-exchange steps of a bitonic network order the
  lanes. A lane keeps its own index when its key stays, and takes the index of its
  partner lane otherwise. Longer columns take several registers and are outside
  this definition.
\<close>

type_synonym lane = "rat option \<times> nat"

fun key_le :: "rat option \<Rightarrow> rat option \<Rightarrow> bool" where
  "key_le a None = True"
| "key_le None (Some b) = False"
| "key_le (Some a) (Some b) = (a \<le> b)"

definition key_min :: "rat option \<Rightarrow> rat option \<Rightarrow> rat option" where
  "key_min a b = (if key_le a b then a else b)"

definition key_max :: "rat option \<Rightarrow> rat option \<Rightarrow> rat option" where
  "key_max a b = (if key_le a b then b else a)"

definition cmp_merge :: "nat list \<Rightarrow> bool list \<Rightarrow> lane list \<Rightarrow> lane list" where
  "cmp_merge partner upper v =
     map (\<lambda>j. let k1 = fst (v ! j); k2 = fst (v ! (partner ! j));
                  t = (if upper ! j then key_max k2 k1 else key_min k2 k1)
              in (t, if t = k1 then snd (v ! j) else snd (v ! (partner ! j))))
       [0, 1, 2, 3, 4, 5, 6, 7]"

definition sort_register :: "lane list \<Rightarrow> lane list" where
  "sort_register v =
     (let swap_pairs = [1, 0, 3, 2, 5, 4, 7, 6];
          reverse_halves = [3, 2, 1, 0, 7, 6, 5, 4];
          reverse_all = [7, 6, 5, 4, 3, 2, 1, 0];
          swap_twos = [2, 3, 0, 1, 6, 7, 4, 5];
          odd_lanes = [False, True, False, True, False, True, False, True];
          upper_twos = [False, False, True, True, False, False, True, True];
          upper_half = [False, False, False, False, True, True, True, True];
          v1 = cmp_merge swap_pairs odd_lanes v;
          v2 = cmp_merge reverse_halves upper_twos v1;
          v3 = cmp_merge swap_pairs odd_lanes v2;
          v4 = cmp_merge reverse_all upper_half v3;
          v5 = cmp_merge swap_twos upper_twos v4;
          v6 = cmp_merge swap_pairs odd_lanes v5
      in v6)"

definition register_argsort :: "rat list \<Rightarrow> nat list option" where
  "register_argsort ks =
     (let n = length ks in
      if n \<le> 8
      then Some (map snd (take n (sort_register
             (zip (map Some ks @ replicate (8 - n) None) ([0 ..< n] @ replicate (8 - n) 0)))))
      else None)"

definition avx512_argsort :: "rat list \<Rightarrow> nat list" where
  "avx512_argsort ks = (case register_argsort ks of Some order \<Rightarrow> order | None \<Rightarrow> [])"

text \<open>\<open>float\<close> on a string of decimal digits, for the concrete examples.\<close>

definition digit_of :: "char \<Rightarrow> nat option" where
  "digit_of c = map_of (zip ''0123456789'' [0, 1, 2, 3, 4, 5, 6, 7, 8, 9]) c"

fun digits_value :: "nat \<Rightarrow> string \<Rightarrow> nat option" where
  "digits_value acc [] = Some acc"
| "digits_value acc (c # cs) =
     (case digit_of c of None \<Rightarrow> None | Some d \<Rightarrow> digits_value (10 * acc + d) cs)"

definition float_of_digits :: "string \<Rightarrow> pyfloat option" where
  "float_of_digits s =
     (if s = [] then None
      else (case digits_value 0 s of None \<Rightarrow> None | Some n \<Rightarrow> Some (Fin (of_nat n))))"

text \<open>The catalog and the intent of the filtering example.\<close>

definition laptop_850 :: row where
  "laptop_850 =
     [''id'' \<mapsto> Str ''L1'', ''title'' \<mapsto> Str ''Laptop A'', ''category'' \<mapsto> Str ''laptop'',
      ''price_usd'' \<mapsto> Num (Fin 850), ''ram_gb'' \<mapsto> Num (Fin 16)]"

definition laptop_950 :: row where
  "laptop_950 =
     [''id'' \<mapsto> Str ''L2'', ''title'' \<mapsto> Str ''Laptop B'', ''category'' \<mapsto> Str ''laptop'',
      ''price_usd'' \<mapsto> Num (Fin 950), ''ram_gb'' \<mapsto> Num (Fin 32)]"

definition two_laptops :: dataframe where
  "two_laptops =
     \<lparr>columns = [''id'', ''title'', ''category'', ''price_usd'', ''ram_gb''],
      rows = [laptop_850, laptop_950]\<rparr>"

definition spec_intent :: intent where
  "spec_intent =
     [''category'' \<mapsto> PStr ''laptop'', ''budget_usd'' \<mapsto> PInt 900,
      ''hard_constraints'' \<mapsto> PDict [(''min_ram_gb'', PInt 16)]]"

text \<open>An intent whose budget no laptop of the example meets, and one that uses keys the
  filter reads.\<close>

definition low_budget_intent :: intent where
  "low_budget_intent = [''category'' \<mapsto> PStr ''laptop'', ''budget'' \<mapsto> PStr ''$100'']"

definition alias_intent :: intent where
  "alias_intent =
     [''category'' \<mapsto> PStr ''laptop'', ''budget'' \<mapsto> PStr ''$900'',
      ''min_ram_gb'' \<mapsto> PStr ''16'']"


text \<open>Two laptops with the same price and memory, and a catalog of three laptops.\<close>

definition twin_1 :: row where
  "twin_1 =
     [''id'' \<mapsto> Str ''T1'', ''title'' \<mapsto> Str ''Twin one'', ''category'' \<mapsto> Str ''laptop'',
      ''price_usd'' \<mapsto> Num (Fin 700), ''ram_gb'' \<mapsto> Num (Fin 8)]"

definition twin_2 :: row where
  "twin_2 =
     [''id'' \<mapsto> Str ''T2'', ''title'' \<mapsto> Str ''Twin two'', ''category'' \<mapsto> Str ''laptop'',
      ''price_usd'' \<mapsto> Num (Fin 700), ''ram_gb'' \<mapsto> Num (Fin 8)]"

definition twin_laptops :: dataframe where
  "twin_laptops =
     \<lparr>columns = [''id'', ''title'', ''category'', ''price_usd'', ''ram_gb''],
      rows = [twin_1, twin_2]\<rparr>"






definition laptop_900 :: row where
  "laptop_900 =
     [''id'' \<mapsto> Str ''L3'', ''title'' \<mapsto> Str ''Laptop C'', ''category'' \<mapsto> Str ''laptop'',
      ''price_usd'' \<mapsto> Num (Fin 900), ''ram_gb'' \<mapsto> Num (Fin 24)]"

definition three_laptops :: dataframe where
  "three_laptops =
     \<lparr>columns = [''id'', ''title'', ''category'', ''price_usd'', ''ram_gb''],
      rows = [laptop_850, laptop_950, laptop_900]\<rparr>"

text \<open>A text generator that answers every prompt, and one that fails on product L3.\<close>

definition steady_llm :: "prompt \<Rightarrow> string + string" where
  "steady_llm p = Inr ''A good fit.''"

definition flaky_llm :: "prompt \<Rightarrow> string + string" where
  "flaky_llm p =
     (if p_row p ''id'' = Some (Str ''L3'') then Inl ''timed out'' else Inr ''A good fit.'')"

section \<open>The weight resolver: facts\<close>

lemma bump_goal_map:
  "bump_goal w g = map (\<lambda>(k, v). (k, v + (if matches k g then delta else 0))) w"
  by (induction w) (auto simp: bump_goal_def bump_def matches_def Let_def)

lemma bump_goals_map:
  "bump_goals w goals = map (\<lambda>(k, v). (k, v + delta * of_nat (hits k goals))) w"
proof (induction goals arbitrary: w)
  case Nil
  show ?case by (induction w) (auto simp: bump_goals_def hits_def)
next
  case (Cons g goals)
  have "bump_goals w (g # goals) = bump_goals (bump_goal w g) goals"
    by (simp add: bump_goals_def)
  also have "\<dots> = map (\<lambda>(k, v). (k, v + delta * of_nat (hits k goals))) (bump_goal w g)"
    by (rule Cons.IH)
  also have "\<dots> = map (\<lambda>(k, v). (k, v + delta * of_nat (hits k (g # goals)))) w"
    unfolding bump_goal_map by (induction w) (auto simp: hits_def algebra_simps)
  finally show ?case .
qed

lemma base_total: "sum_list (map snd (base_weights c)) = 1"
  by (simp add: base_weights_def)

lemma base_keys: "map fst (base_weights c) = [''price'', ''performance'', ''battery'', ''screen'']"
  by (simp add: base_weights_def)

lemma base_nonneg: "\<forall>v \<in> set (map snd (base_weights c)). 0 \<le> v"
  by (simp add: base_weights_def)

lemma bump_goals_keys: "map fst (bump_goals w goals) = map fst w"
  unfolding bump_goals_map by (induction w) auto

lemma bump_goals_nonneg:
  "\<forall>v \<in> set (map snd w). 0 \<le> v \<Longrightarrow> \<forall>v \<in> set (map snd (bump_goals w goals)). 0 \<le> v"
  unfolding bump_goals_map by (induction w) (auto simp: delta_def)

lemma bump_goals_total: "sum_list (map snd w) \<le> sum_list (map snd (bump_goals w goals))"
  unfolding bump_goals_map by (induction w) (auto simp: delta_def)

lemma renormalize_keys: "map fst (renormalize w) = map fst w"
  by (induction w) (auto simp: renormalize_def Let_def)

lemma snd_scaled: "map snd (map (\<lambda>(k, v). (k, v / t)) w) = map (\<lambda>v. v / t) (map snd w)"
  by (induction w) auto

lemma sum_list_scaled: "sum_list (map (\<lambda>v. v / t) xs) = sum_list xs / t" for xs :: "rat list"
  by (induction xs) (auto simp: add_divide_distrib)

lemma renormalize_total:
  assumes "0 < sum_list (map snd w)"
  shows "sum_list (map snd (renormalize w)) = 1"
proof -
  have "renormalize w = map (\<lambda>(k, v). (k, v / sum_list (map snd w))) w"
    using assms by (simp add: renormalize_def Let_def)
  then have "sum_list (map snd (renormalize w)) = sum_list (map snd w) / sum_list (map snd w)"
    by (simp only: snd_scaled sum_list_scaled)
  then show ?thesis using assms by simp
qed

lemma renormalize_nonneg:
  assumes "\<forall>v \<in> set (map snd w). 0 \<le> v"
  shows "\<forall>v \<in> set (map snd (renormalize w)). 0 \<le> v"
  using assms by (auto simp: renormalize_def Let_def)

lemma renormalize_fallback:
  assumes "map fst w = [''price'', ''performance'', ''battery'', ''screen'']"
    and "sum_list (map snd w) \<le> 0"
  shows "renormalize w =
    [(''price'', 1 / 4), (''performance'', 1 / 4), (''battery'', 1 / 4), (''screen'', 1 / 4)]"
proof -
  from assms(1) obtain a b c d where
    w: "w = [(''price'', a), (''performance'', b), (''battery'', c), (''screen'', d)]"
    by (auto simp: map_eq_Cons_conv)
  show ?thesis using assms(2) unfolding w by (simp add: renormalize_def Let_def)
qed

lemma lowered_goals_ok:
  assumes "goal_field_ok intent"
  shows "\<exists>goals. lowered_goals py_str intent = Inr goals"
  using assms
  by (auto simp: goal_field_ok_def lowered_goals_def goals_raw_def dict_get_def Let_def
      split: option.splits pyval.splits)

lemma goals_list_ok:
  assumes "goal_field_ok intent"
  shows "\<exists>goals. goals_list py_str intent = Inr goals"
  using assms
  by (auto simp: goal_field_ok_def goals_list_def goals_raw_def dict_get_def Let_def
      split: option.splits pyval.splits)

lemma compute_weights_props:
  assumes "compute_weights py_str intent c = Inr w"
  shows "map fst w = [''price'', ''performance'', ''battery'', ''screen'']"
    and "\<forall>v \<in> set (map snd w). 0 \<le> v"
    and "sum_list (map snd w) = 1"
proof -
  from assms obtain goals where
    w: "w = renormalize (bump_goals (base_weights c) goals)"
    by (auto simp: compute_weights_def accumulated_weights_def split: sum.splits)
  show "map fst w = [''price'', ''performance'', ''battery'', ''screen'']"
    unfolding w by (simp only: renormalize_keys bump_goals_keys base_keys)
  show "\<forall>v \<in> set (map snd w). 0 \<le> v"
    unfolding w by (intro renormalize_nonneg bump_goals_nonneg base_nonneg)
  have "1 \<le> sum_list (map snd (bump_goals (base_weights c) goals))"
    using bump_goals_total [of "base_weights c" goals] by (simp only: base_total)
  then show "sum_list (map snd w) = 1"
    unfolding w by (intro renormalize_total) simp
qed

text \<open>
  Claim C3. When the goal field of the intent is absent, \<open>None\<close>, a bare string or a
  list, \<open>_compute_weights\<close> returns a weight set whose keys are exactly price,
  performance, battery and screen, whose weights are non-negative and sum to 1, for
  every category. The renormalisation step maps a four-criteria dictionary whose total
  is zero or negative to the equal split, 1/4 for each criterion.
\<close>

theorem weight_set_invariant:
  "(goal_field_ok intent \<longrightarrow>
      (\<exists>w. compute_weights py_str intent c = Inr w
         \<and> map fst w = [''price'', ''performance'', ''battery'', ''screen'']
         \<and> (\<forall>v \<in> set (map snd w). 0 \<le> v)
         \<and> sum_list (map snd w) = 1))
   \<and> (map fst w0 = [''price'', ''performance'', ''battery'', ''screen'']
        \<and> sum_list (map snd w0) \<le> 0 \<longrightarrow>
      renormalize w0 =
        [(''price'', 1 / 4), (''performance'', 1 / 4), (''battery'', 1 / 4), (''screen'', 1 / 4)])"
proof (intro conjI impI)
  assume "goal_field_ok intent"
  then obtain goals where "lowered_goals py_str intent = Inr goals"
    using lowered_goals_ok by blast
  then have "compute_weights py_str intent c = Inr (renormalize (bump_goals (base_weights c) goals))"
    by (simp add: compute_weights_def accumulated_weights_def)
  then show "\<exists>w. compute_weights py_str intent c = Inr w
         \<and> map fst w = [''price'', ''performance'', ''battery'', ''screen'']
         \<and> (\<forall>v \<in> set (map snd w). 0 \<le> v)
         \<and> sum_list (map snd w) = 1"
    using compute_weights_props by blast
next
  assume a: "map fst w0 = [''price'', ''performance'', ''battery'', ''screen'']
        \<and> sum_list (map snd w0) \<le> 0"
  show "renormalize w0 =
        [(''price'', 1 / 4), (''performance'', 1 / 4), (''battery'', 1 / 4), (''screen'', 1 / 4)]"
    by (rule renormalize_fallback [OF conjunct1 [OF a] conjunct2 [OF a]])
qed

theorem weight_set_invariant_witness:
  "goal_field_ok [''primary_goals'' \<mapsto> PStr ''Gaming'']
   \<and> (\<exists>w. compute_weights (\<lambda>v. []) [''primary_goals'' \<mapsto> PStr ''Gaming''] ''laptop'' = Inr w
         \<and> map fst w = [''price'', ''performance'', ''battery'', ''screen'']
         \<and> (\<forall>v \<in> set (map snd w). 0 \<le> v)
         \<and> sum_list (map snd w) = 1)
   \<and> map fst [(''price'', 0::rat), (''performance'', 0), (''battery'', 0), (''screen'', 0)]
       = [''price'', ''performance'', ''battery'', ''screen'']
   \<and> sum_list (map snd [(''price'', 0::rat), (''performance'', 0), (''battery'', 0), (''screen'', 0)]) \<le> 0
   \<and> renormalize [(''price'', 0), (''performance'', 0), (''battery'', 0), (''screen'', 0)] =
        [(''price'', 1 / 4), (''performance'', 1 / 4), (''battery'', 1 / 4), (''screen'', 1 / 4)]"
  using weight_set_invariant [of "[''primary_goals'' \<mapsto> PStr ''Gaming'']" "\<lambda>v. []" "''laptop''"
      "[(''price'', 0), (''performance'', 0), (''battery'', 0), (''screen'', 0)]"]
  by (simp add: goal_field_ok_def)


lemma accumulated_example:
  "accumulated_weights py_str
     [''primary_goals'' \<mapsto> PList [PStr ''GAMING'', PStr ''Speed and gaming'', PStr ''cheap'']]
     ''laptop''
   = Inr [(''price'', 45 / 100), (''performance'', 70 / 100), (''battery'', 30 / 100), (''screen'', 0)]"
  by (simp add: accumulated_weights_def lowered_goals_def goals_raw_def dict_get_def str_of_def
      lower_def lower_char_def bump_goals_def bump_goal_def bump_def base_weights_def delta_def
      wants_performance_def wants_battery_def wants_price_def wants_screen_def)

text \<open>
  Claim C10. One goal raises a criterion by 0.15 when it matches the criterion's
  keyword group and leaves it unchanged otherwise, however many keywords of the
  group it contains: the goal \<open>battery all day\<close> adds 0.15 to battery once, and the goal
  \<open>cheap gaming\<close> adds 0.15 to price and 0.15 to performance.
\<close>

theorem one_bump_per_goal_and_criterion:
  "bump_goal w g = map (\<lambda>(k, v). (k, v + (if matches k g then 15 / 100 else 0))) w
   \<and> bump_goal (base_weights ''laptop'') ''battery all day'' =
       [(''price'', 30 / 100), (''performance'', 40 / 100), (''battery'', 45 / 100), (''screen'', 0)]
   \<and> bump_goal (base_weights ''laptop'') ''cheap gaming'' =
       [(''price'', 45 / 100), (''performance'', 55 / 100), (''battery'', 30 / 100), (''screen'', 0)]"
proof -
  have "bump_goal (base_weights ''laptop'') ''battery all day'' =
       [(''price'', 30 / 100), (''performance'', 40 / 100), (''battery'', 45 / 100), (''screen'', 0)]"
    by (simp add: bump_goal_def base_weights_def bump_def wants_performance_def
        wants_battery_def wants_price_def wants_screen_def delta_def)
  moreover have "bump_goal (base_weights ''laptop'') ''cheap gaming'' =
       [(''price'', 45 / 100), (''performance'', 55 / 100), (''battery'', 30 / 100), (''screen'', 0)]"
    by (simp add: bump_goal_def base_weights_def bump_def wants_performance_def
        wants_battery_def wants_price_def wants_screen_def delta_def)
  ultimately show ?thesis by (simp only: bump_goal_map delta_def)
qed

section \<open>The feature normaliser: facts\<close>

lemma usable_set: "x \<in> set (usable s) \<longleftrightarrow> Fin x \<in> set s"
  by (induction s rule: usable.induct) auto

lemma length_normalize_series:
  "length (normalize_series pd_num series h) = length series"
  by (simp add: normalize_series_def Let_def)

lemma isclose_refl: "isclose a a"
  by (simp add: isclose_def)

text \<open>The normalised value of one usable entry, between the bounds of the series.\<close>

lemma unit_interval:
  fixes x lo hi :: rat
  assumes "lo \<le> x" "x \<le> hi" "lo \<noteq> hi"
  shows "0 \<le> (x - lo) / (hi - lo)" and "(x - lo) / (hi - lo) \<le> 1"
proof -
  have "lo < hi" using assms by linarith
  then show "0 \<le> (x - lo) / (hi - lo)" using assms(1) by simp
  show "(x - lo) / (hi - lo) \<le> 1" using \<open>lo < hi\<close> assms(2) by simp
qed

lemma normalize_series_range:
  assumes "v \<in> set (normalize_series pd_num series h)"
  shows "0 \<le> v \<and> v \<le> 1"
proof -
  define s where "s = map (to_numeric pd_num) series"
  define lo where "lo = Min (set (usable s))"
  define hi where "hi = Max (set (usable s))"
  show ?thesis
  proof (cases "usable s = [] \<or> isclose lo hi")
    case True
    then have "normalize_series pd_num series h = replicate (length s) (1 / 2)"
      by (auto simp: normalize_series_def Let_def s_def lo_def hi_def)
    with assms show ?thesis by auto
  next
    case False
    then have ne: "lo \<noteq> hi" using isclose_refl by auto
    from False have
      "normalize_series pd_num series h =
         map (\<lambda>f. case f of NaN \<Rightarrow> 1 / 2
                | Fin x \<Rightarrow> (let norm = (x - lo) / (hi - lo) in if h then norm else 1 - norm)) s"
      by (simp add: normalize_series_def Let_def s_def lo_def hi_def)
    with assms obtain f where f: "f \<in> set s"
      and v: "v = (case f of NaN \<Rightarrow> 1 / 2
                | Fin x \<Rightarrow> (let norm = (x - lo) / (hi - lo) in if h then norm else 1 - norm))"
      by auto
    show ?thesis
    proof (cases f)
      case NaN
      with v show ?thesis by simp
    next
      case (Fin x)
      with f have "x \<in> set (usable s)" by (simp add: usable_set)
      then have "lo \<le> x" "x \<le> hi" by (simp_all add: lo_def hi_def)
      from unit_interval [OF this ne] v Fin show ?thesis by (simp add: Let_def)
    qed
  qed
qed

text \<open>
  Claim C4, as the code has it. For every column and either direction,
  \<open>_normalize_series\<close> returns one value per entry, each in [0,1]. When no entry is
  usable, or when the minimum and the maximum of the usable entries are close in the
  sense of \<open>math.isclose\<close> (equal, or within the relative tolerance 1e-9), every
  entry gets 1/2. Otherwise a missing or non-numeric entry gets 1/2 and a usable
  entry \<open>x\<close> gets \<open>(x - min) / (max - min)\<close>, or one minus it when lower is better.
\<close>

theorem normalize_series_cases:
  "(\<forall>v \<in> set (normalize_series pd_num series h). 0 \<le> v \<and> v \<le> 1)
   \<and> length (normalize_series pd_num series h) = length series
   \<and> (let s = map (to_numeric pd_num) series;
          lo = Min (set (usable s)); hi = Max (set (usable s)) in
      if usable s = [] \<or> isclose lo hi
      then normalize_series pd_num series h = replicate (length series) (1 / 2)
      else (\<forall>i < length series.
              normalize_series pd_num series h ! i =
                (case s ! i of
                   NaN \<Rightarrow> 1 / 2
                 | Fin x \<Rightarrow> if h then (x - lo) / (hi - lo) else 1 - (x - lo) / (hi - lo))))"
proof (intro conjI)
  show "\<forall>v \<in> set (normalize_series pd_num series h). 0 \<le> v \<and> v \<le> 1"
    using normalize_series_range by blast
  show "length (normalize_series pd_num series h) = length series"
    by (rule length_normalize_series)
  show "let s = map (to_numeric pd_num) series;
          lo = Min (set (usable s)); hi = Max (set (usable s)) in
      if usable s = [] \<or> isclose lo hi
      then normalize_series pd_num series h = replicate (length series) (1 / 2)
      else (\<forall>i < length series.
              normalize_series pd_num series h ! i =
                (case s ! i of
                   NaN \<Rightarrow> 1 / 2
                 | Fin x \<Rightarrow> if h then (x - lo) / (hi - lo) else 1 - (x - lo) / (hi - lo)))"
    by (auto simp: normalize_series_def Let_def split: pyfloat.splits)
qed




theorem normalize_series_cases_witness:
  "usable (map (to_numeric (\<lambda>s. NaN))
      [Num (Fin 850), Num NaN, Str ''n/a'', Num (Fin 950), Num (Fin 900)]) = [850, 950, 900]
   \<and> \<not> isclose 850 950
   \<and> normalize_series (\<lambda>s. NaN)
       [Num (Fin 850), Num NaN, Str ''n/a'', Num (Fin 950), Num (Fin 900)] False
       = [1, 1 / 2, 1 / 2, 0, 1 / 2]
   \<and> length (normalize_series (\<lambda>s. NaN)
       [Num (Fin 850), Num NaN, Str ''n/a'', Num (Fin 950), Num (Fin 900)] False) = 5
   \<and> isclose 7 7
   \<and> normalize_series (\<lambda>s. NaN) [Num (Fin 7), Num NaN, Num (Fin 7)] True
       = [1 / 2, 1 / 2, 1 / 2]"
proof -
  have "length (normalize_series (\<lambda>s. NaN)
       [Num (Fin 850), Num NaN, Str ''n/a'', Num (Fin 950), Num (Fin 900)] False)
     = length [Num (Fin 850), Num NaN, Str ''n/a'', Num (Fin 950), Num (Fin 900)]"
    by (rule conjunct1 [OF conjunct2 [OF normalize_series_cases]])
  then have "length (normalize_series (\<lambda>s. NaN)
       [Num (Fin 850), Num NaN, Str ''n/a'', Num (Fin 950), Num (Fin 900)] False) = 5"
    by simp
  moreover have "usable (map (to_numeric (\<lambda>s. NaN))
      [Num (Fin 850), Num NaN, Str ''n/a'', Num (Fin 950), Num (Fin 900)]) = [850, 950, 900]"
    by (simp add: to_numeric_def)
  moreover have "\<not> isclose 850 950" "isclose 7 7"
    by (simp_all add: isclose_def rel_tol_def abs_tol_def)
  moreover have "normalize_series (\<lambda>s. NaN)
       [Num (Fin 850), Num NaN, Str ''n/a'', Num (Fin 950), Num (Fin 900)] False
       = [1, 1 / 2, 1 / 2, 0, 1 / 2]"
    by (simp add: normalize_series_def to_numeric_def isclose_def rel_tol_def abs_tol_def)
  moreover have "normalize_series (\<lambda>s. NaN) [Num (Fin 7), Num NaN, Num (Fin 7)] True
       = [1 / 2, 1 / 2, 1 / 2]"
    by (simp add: normalize_series_def to_numeric_def isclose_def rel_tol_def abs_tol_def)
  ultimately show ?thesis by (intro conjI)
qed

text \<open>
  The claim as stated gives \<open>(x - min) / (max - min)\<close> whenever the minimum differs
  from the maximum. On the column 10000000000, 10000000001 the two differ, the
  formula gives 1 for the second entry, and the code returns 1/2 for both.
\<close>

theorem close_bounds_counterexample:
  "normalize_series (\<lambda>s. NaN) [Num (Fin 10000000000), Num (Fin 10000000001)] True = [1 / 2, 1 / 2]
   \<and> usable (map (to_numeric (\<lambda>s. NaN)) [Num (Fin 10000000000), Num (Fin 10000000001)])
       = [10000000000, 10000000001]
   \<and> Min (set [10000000000, 10000000001 :: rat]) \<noteq> Max (set [10000000000, 10000000001])
   \<and> (10000000001 - Min (set [10000000000, 10000000001 :: rat]))
        / (Max (set [10000000000, 10000000001]) - Min (set [10000000000, 10000000001])) = 1"
  by (simp add: normalize_series_def to_numeric_def isclose_def rel_tol_def abs_tol_def)

section \<open>The catalog filter: facts\<close>

lemma category_from_intent_known:
  "category_from_intent intent keys = Some c \<Longrightarrow> c \<in> set (map fst CATEGORY_KEYWORDS)"
  by (induction keys) (auto split: pyval.splits if_splits)

lemma category_from_query_known:
  "category_from_query q table = Some c \<Longrightarrow> c \<in> set (map fst table)"
  by (induction q table rule: category_from_query.induct) (auto split: if_splits)

lemma at_least_subset: "set (at_least pd_num cols bound c df) \<subseteq> set df"
  by (auto simp: at_least_def split: option.splits)

lemma category_rows_category:
  "r \<in> set (category_rows catalog cat) \<Longrightarrow> cell_at r ''category'' = Str cat"
  by (simp add: category_rows_def)


lemma known_keys: "set (map fst CATEGORY_KEYWORDS) = {''laptop'', ''phone'', ''tablet'', ''monitor''}"
  by (simp add: CATEGORY_KEYWORDS_def)

lemma detect_category_known:
  "detect_category intent user_query \<in> {''laptop'', ''phone'', ''tablet'', ''monitor''}"
proof (cases "category_from_intent intent [''category'', ''device_type'', ''product_type'']")
  case (Some c)
  then have "c \<in> set (map fst CATEGORY_KEYWORDS)" by (rule category_from_intent_known)
  moreover have "detect_category intent user_query = c"
    by (simp only: detect_category_def Some option.case)
  ultimately show ?thesis by (simp only: known_keys)
next
  case None
  define q where "q = lower (case user_query of None \<Rightarrow> [] | Some u \<Rightarrow> u)"
  show ?thesis
  proof (cases "category_from_query q CATEGORY_KEYWORDS")
    case inner: None
    have "detect_category intent user_query = ''laptop''"
      by (simp only: detect_category_def None option.case Let_def q_def [symmetric] inner)
    then show ?thesis by (simp only: insertI1)
  next
    case inner: (Some c)
    then have "c \<in> set (map fst CATEGORY_KEYWORDS)" by (rule category_from_query_known)
    moreover have "detect_category intent user_query = c"
      by (simp only: detect_category_def None option.case Let_def q_def [symmetric] inner)
    ultimately show ?thesis by (simp only: known_keys)
  qed
qed


lemma numeric_filters_subset:
  "set (numeric_filters py_str py_float pd_num cols intent df) \<subseteq> set df"
proof -
  define b where "b = get_float py_str py_float intent
              [''budget_max'', ''max_price'', ''budget'', ''price_cap'']"
  define df1 where "df1 = (case b of
                   None \<Rightarrow> df
                 | Some b \<Rightarrow>
                     if ''price_usd'' \<in> set cols
                     then filter (\<lambda>r. float_le (numeric_at pd_num r ''price_usd'') b) df
                     else df)"
  have 1: "set df1 \<subseteq> set df"
    by (auto simp: df1_def split: option.splits)
  have "set (numeric_filters py_str py_float pd_num cols intent df) = set (
     at_least pd_num cols (get_float py_str py_float intent
              [''min_battery_wh'', ''battery_min'', ''battery_wh_min'']) ''battery_wh''
      (at_least pd_num cols (get_float py_str py_float intent
              [''min_storage_gb'', ''storage_min'', ''min_storage'']) ''storage_gb''
        (at_least pd_num cols (get_float py_str py_float intent
              [''min_ram_gb'', ''ram_min'', ''ram_gb_min'', ''min_ram'']) ''ram_gb'' df1)))"
    by (simp only: numeric_filters_def Let_def df1_def b_def)
  also have "\<dots> \<subseteq> set df1"
    by (intro subset_trans [OF at_least_subset] at_least_subset)
  finally show ?thesis using 1 by (rule subset_trans)
qed


lemma filter_products_result:
  assumes "''category'' \<in> set (columns catalog)"
  shows "filter_products py_str py_float pd_num catalog intent user_query =
    Inr \<lparr>columns = columns catalog,
         rows = (if numeric_filters py_str py_float pd_num (columns catalog) intent
                      (category_rows catalog (detect_category intent user_query)) = []
                 then category_rows catalog (detect_category intent user_query)
                 else numeric_filters py_str py_float pd_num (columns catalog) intent
                      (category_rows catalog (detect_category intent user_query)))\<rparr>"
proof -
  from assms have cols: "columns catalog \<noteq> []" by auto
  show ?thesis using assms cols
    by (simp add: filter_products_def Let_def df_empty_def)
qed

lemma kept_rows_category:
  assumes "set kept \<subseteq> set (category_rows catalog cat)"
  shows "\<forall>r \<in> set (if kept = [] then category_rows catalog cat else kept).
           cell_at r ''category'' = Str cat"
  using assms category_rows_category by auto

lemma filtered_rows_category:
  assumes "filter_products py_str py_float pd_num catalog intent user_query = Inr df"
  shows "\<forall>r \<in> set (rows df). cell_at r ''category'' = Str (detect_category intent user_query)"
    and "columns df = columns catalog"
    and "''category'' \<in> set (columns catalog)"
proof -
  let ?cat = "detect_category intent user_query"
  let ?kept = "numeric_filters py_str py_float pd_num (columns catalog) intent
                 (category_rows catalog ?cat)"
  show c: "''category'' \<in> set (columns catalog)"
    using assms by (auto simp: filter_products_def split: if_splits)
  have df: "df = \<lparr>columns = columns catalog,
              rows = (if ?kept = [] then category_rows catalog ?cat else ?kept)\<rparr>"
    using assms by (simp add: filter_products_result [OF c])
  have "set ?kept \<subseteq> set (category_rows catalog ?cat)"
    by (rule numeric_filters_subset)
  then have "\<forall>r \<in> set (if ?kept = [] then category_rows catalog ?cat else ?kept).
           cell_at r ''category'' = Str ?cat"
    by (rule kept_rows_category)
  then show "\<forall>r \<in> set (rows df). cell_at r ''category'' = Str ?cat"
    by (simp add: df)
  show "columns df = columns catalog"
    by (simp add: df)
qed

text \<open>
  Claim C7. For every intent, query and catalog with a category column,
  \<open>filter_products\<close> returns a frame; its rows are the rows of the resolved category
  that pass the numeric filters, or, when no row passes them, all rows of the resolved
  category. Every returned row has the resolved category, which is one of laptop,
  phone, tablet and monitor.
\<close>

theorem filter_fallback_keeps_category:
  assumes "''category'' \<in> set (columns catalog)"
  shows "\<exists>df. filter_products py_str py_float pd_num catalog intent user_query = Inr df
     \<and> rows df =
         (if numeric_filters py_str py_float pd_num (columns catalog) intent
               (category_rows catalog (detect_category intent user_query)) = []
          then category_rows catalog (detect_category intent user_query)
          else numeric_filters py_str py_float pd_num (columns catalog) intent
               (category_rows catalog (detect_category intent user_query)))
     \<and> (\<forall>r \<in> set (rows df). cell_at r ''category'' = Str (detect_category intent user_query))
     \<and> detect_category intent user_query \<in> {''laptop'', ''phone'', ''tablet'', ''monitor''}"
proof -
  let ?cat = "detect_category intent user_query"
  let ?kept = "numeric_filters py_str py_float pd_num (columns catalog) intent
                 (category_rows catalog ?cat)"
  let ?df = "\<lparr>columns = columns catalog,
              rows = (if ?kept = [] then category_rows catalog ?cat else ?kept)\<rparr>"
  have res: "filter_products py_str py_float pd_num catalog intent user_query = Inr ?df"
    by (rule filter_products_result [OF assms])
  have rws: "rows ?df = (if ?kept = [] then category_rows catalog ?cat else ?kept)"
    by (simp only: dataframe.select_convs)
  have "set ?kept \<subseteq> set (category_rows catalog ?cat)"
    by (rule numeric_filters_subset)
  then have "\<forall>r \<in> set (if ?kept = [] then category_rows catalog ?cat else ?kept).
           cell_at r ''category'' = Str ?cat"
    by (rule kept_rows_category)
  then have cats: "\<forall>r \<in> set (rows ?df). cell_at r ''category'' = Str ?cat"
    by (simp only: dataframe.select_convs)
  have known: "?cat \<in> {''laptop'', ''phone'', ''tablet'', ''monitor''}"
    by (rule detect_category_known)
  show ?thesis
    by (rule exI [of _ ?df], intro conjI) (fact res rws cats known)+
qed

lemma rows_two_laptops: "category_rows two_laptops ''laptop'' = [laptop_850, laptop_950]"
  by (simp add: category_rows_def two_laptops_def cell_at_def laptop_850_def laptop_950_def)

lemma columns_two_laptops:
  "columns two_laptops = [''id'', ''title'', ''category'', ''price_usd'', ''ram_gb'']"
  by (simp add: two_laptops_def)

lemma two_laptops_eq:
  "\<lparr>columns = columns two_laptops, rows = [laptop_850, laptop_950]\<rparr> = two_laptops"
  by (simp add: two_laptops_def)

lemma laptop_cells:
  "cell_at laptop_850 ''price_usd'' = Num (Fin 850)"
  "cell_at laptop_950 ''price_usd'' = Num (Fin 950)"
  "cell_at laptop_850 ''ram_gb'' = Num (Fin 16)"
  "cell_at laptop_950 ''ram_gb'' = Num (Fin 32)"
  by (simp_all add: cell_at_def laptop_850_def laptop_950_def)

lemma low_budget_category: "detect_category low_budget_intent user_query = ''laptop''"
  by (simp add: detect_category_def dict_get_def strip_def is_space_def lower_def lower_char_def
      CATEGORY_KEYWORDS_def low_budget_intent_def)

lemma parse_100: "float_of_digits (strip (remove_dollar ''$100'')) = Some (Fin 100)"
  by (simp add: float_of_digits_def digit_of_def strip_def remove_dollar_def is_space_def)

lemma low_budget_keeps_nothing:
  "numeric_filters py_str float_of_digits pd_num (columns two_laptops) low_budget_intent
     [laptop_850, laptop_950] = []"
  by (simp add: numeric_filters_def low_budget_intent_def str_of_def parse_100 at_least_def
      columns_two_laptops numeric_at_def to_numeric_def laptop_cells)

theorem filter_fallback_keeps_category_witness:
  "''category'' \<in> set (columns two_laptops)
   \<and> numeric_filters (\<lambda>v. []) float_of_digits (\<lambda>s. NaN) (columns two_laptops)
        low_budget_intent (category_rows two_laptops ''laptop'') = []
   \<and> (\<exists>df. filter_products (\<lambda>v. []) float_of_digits (\<lambda>s. NaN) two_laptops
              low_budget_intent None = Inr df
            \<and> rows df = [laptop_850, laptop_950])"
proof -
  have c: "''category'' \<in> set (columns two_laptops)"
    by (simp add: columns_two_laptops)
  have none: "numeric_filters (\<lambda>v. []) float_of_digits (\<lambda>s. NaN) (columns two_laptops)
        low_budget_intent (category_rows two_laptops ''laptop'') = []"
    by (simp only: rows_two_laptops low_budget_keeps_nothing)
  from filter_fallback_keeps_category [OF c, of "\<lambda>v. []" float_of_digits "\<lambda>s. NaN"
      low_budget_intent None]
  have "\<exists>df. filter_products (\<lambda>v. []) float_of_digits (\<lambda>s. NaN) two_laptops
              low_budget_intent None = Inr df
            \<and> rows df = [laptop_850, laptop_950]"
    by (simp add: low_budget_category low_budget_keeps_nothing rows_two_laptops) blast
  with c none show ?thesis by (intro conjI)
qed

lemma spec_intent_category: "detect_category spec_intent user_query = ''laptop''"
  by (simp add: detect_category_def dict_get_def strip_def is_space_def lower_def lower_char_def
      CATEGORY_KEYWORDS_def spec_intent_def)

lemma spec_intent_no_bounds:
  "numeric_filters py_str py_float pd_num cols spec_intent df = df"
  by (simp add: numeric_filters_def at_least_def spec_intent_def)

text \<open>
  Claim C1, evaluated on the code. The intent of the claim carries the budget under
  the key \<open>budget_usd\<close> and the RAM bound inside \<open>hard_constraints\<close>;
  \<open>filter_products\<close> reads neither place, so no numeric filter is applied and both
  laptops are returned, whatever the parsers and the query are.
\<close>

theorem spec_intent_not_filtered:
  "filter_products py_str py_float pd_num two_laptops spec_intent user_query = Inr two_laptops
   \<and> rows two_laptops = [laptop_850, laptop_950]"
proof -
  have "''category'' \<in> set (columns two_laptops)"
    by (simp add: columns_two_laptops)
  then have "filter_products py_str py_float pd_num two_laptops spec_intent user_query =
     Inr \<lparr>columns = columns two_laptops, rows = [laptop_850, laptop_950]\<rparr>"
    by (simp add: filter_products_result spec_intent_category spec_intent_no_bounds
        rows_two_laptops)
  moreover have "rows two_laptops = [laptop_850, laptop_950]"
    by (simp add: two_laptops_def)
  ultimately show ?thesis by (simp only: two_laptops_eq simp_thms)
qed

text \<open>
  With the same bounds under keys that \<open>_get_float\<close> reads, only the cheaper laptop
  is returned.
\<close>

lemma alias_category: "detect_category alias_intent user_query = ''laptop''"
  by (simp add: detect_category_def dict_get_def strip_def is_space_def lower_def lower_char_def
      CATEGORY_KEYWORDS_def alias_intent_def)

lemma parse_900: "float_of_digits (strip (remove_dollar ''$900'')) = Some (Fin 900)"
  by (simp add: float_of_digits_def digit_of_def strip_def remove_dollar_def is_space_def)

lemma parse_16: "float_of_digits (strip (remove_dollar ''16'')) = Some (Fin 16)"
  by (simp add: float_of_digits_def digit_of_def strip_def remove_dollar_def is_space_def)

lemma alias_keeps_850:
  "numeric_filters py_str float_of_digits pd_num (columns two_laptops) alias_intent
     [laptop_850, laptop_950] = [laptop_850]"
  by (simp add: numeric_filters_def alias_intent_def str_of_def parse_900 parse_16 at_least_def
      columns_two_laptops numeric_at_def to_numeric_def laptop_cells fillna0_def)

lemma alias_keys_are_enforced:
  "filter_products py_str float_of_digits pd_num two_laptops alias_intent user_query
   = Inr \<lparr>columns = columns two_laptops, rows = [laptop_850]\<rparr>"
proof -
  have "''category'' \<in> set (columns two_laptops)"
    by (simp add: columns_two_laptops)
  then show ?thesis
    by (simp add: filter_products_result alias_category alias_keeps_850 rows_two_laptops)
qed

section \<open>The scorer: facts\<close>

lemma stable_descending_sorts: "sorts_descending stable_descending"
proof -
  have "sorted_wrt (\<lambda>a b. fst b \<le> fst a) (rev (sort_key fst ys))" for ys :: "scored_row list"
    using sorted_sort_key [of fst ys] by (simp add: sorted_wrt_rev sorted_map)
  then show ?thesis
    by (simp add: sorts_descending_def stable_descending_def)
qed




lemma kernel_two: "avx512_argsort [1 / 2, 1 / 2] = [0, 1]"
  by code_simp

lemma py_round_bounds: "\<lfloor>x\<rfloor> \<le> py_round x \<and> py_round x \<le> \<lceil>x\<rceil>"
proof -
  have "x = of_int \<lfloor>x\<rfloor> \<Longrightarrow> \<lceil>x\<rceil> = \<lfloor>x\<rfloor>"
    by (metis ceiling_of_int)
  moreover have "x \<noteq> of_int \<lfloor>x\<rfloor> \<Longrightarrow> \<lceil>x\<rceil> = \<lfloor>x\<rfloor> + 1"
    by (metis ceiling_altdef)
  ultimately show ?thesis
    by (cases "x = of_int \<lfloor>x\<rfloor>") (auto simp: py_round_def Let_def)
qed

lemma py_round_percent:
  assumes "0 \<le> x" "x \<le> 1"
  shows "0 \<le> py_round (x * 100) \<and> py_round (x * 100) \<le> 100"
proof -
  have "0 \<le> x * 100" "x * 100 \<le> 100" using assms by simp_all
  then have "0 \<le> \<lfloor>x * 100\<rfloor>" "\<lceil>x * 100\<rceil> \<le> 100"
    by (simp_all add: ceiling_le_iff)
  with py_round_bounds [of "x * 100"] show ?thesis by linarith
qed


lemma feature_score_length:
  "length (feature_score pd_num df c h) = length (rows df)"
  by (simp add: feature_score_def length_normalize_series column_def)

lemma feature_score_range:
  assumes "i < length (rows df)"
  shows "0 \<le> feature_score pd_num df c h ! i \<and> feature_score pd_num df c h ! i \<le> 1"
proof -
  have "feature_score pd_num df c h ! i \<in> set (feature_score pd_num df c h)"
    using assms by (simp add: feature_score_length)
  then show ?thesis
    using normalize_series_range [of _ pd_num "column df c" h]
    by (auto simp: feature_score_def split: if_splits)
qed

lemma performance_score_length:
  "length (performance_score pd_num df cat) = length (rows df)"
  by (simp add: performance_score_def Let_def)

lemma performance_score_range:
  assumes "i < length (rows df)"
  shows "0 \<le> performance_score pd_num df cat ! i \<and> performance_score pd_num df cat ! i \<le> 1"
proof (cases "cat \<in> {''laptop'', ''tablet'', ''phone''}")
  case True
  define a where "a = feature_score pd_num df ''ram_gb'' True ! i"
  define b where "b = feature_score pd_num df ''storage_gb'' True ! i"
  have "0 \<le> a \<and> a \<le> 1" "0 \<le> b \<and> b \<le> 1"
    unfolding a_def b_def using assms by (rule feature_score_range)+
  moreover have "performance_score pd_num df cat ! i = 7 / 10 * a + 3 / 10 * b"
    using True assms by (simp add: performance_score_def Let_def a_def b_def)
  ultimately show ?thesis by simp
next
  case False
  with assms show ?thesis by (simp add: performance_score_def)
qed

text \<open>A weighted sum of values of the unit interval, the weights adding up to 1.\<close>

lemma convex_combination:
  fixes a b c d p q r s :: rat
  assumes "0 \<le> a" "0 \<le> b" "0 \<le> c" "0 \<le> d" "a + b + c + d = 1"
    and "0 \<le> p \<and> p \<le> 1" "0 \<le> q \<and> q \<le> 1" "0 \<le> r \<and> r \<le> 1" "0 \<le> s \<and> s \<le> 1"
  shows "0 \<le> a * p + b * q + c * r + d * s \<and> a * p + b * q + c * r + d * s \<le> 1"
proof -
  have "0 \<le> a * p" "0 \<le> b * q" "0 \<le> c * r" "0 \<le> d * s"
    using assms by simp_all
  moreover have "a * p \<le> a" "b * q \<le> b" "c * r \<le> c" "d * s \<le> d"
    using assms by (simp_all add: mult_left_le)
  ultimately show ?thesis using assms(5) by linarith
qed

lemma four_weights:
  assumes "compute_weights py_str intent cat = Inr w"
  obtains w_price w_perf w_batt w_scr where
    "w = [(''price'', w_price), (''performance'', w_perf), (''battery'', w_batt), (''screen'', w_scr)]"
    "0 \<le> w_price" "0 \<le> w_perf" "0 \<le> w_batt" "0 \<le> w_scr" "w_price + w_perf + w_batt + w_scr = 1"
proof -
  from compute_weights_props(1) [OF assms] obtain w_price w_perf w_batt w_scr where
    w: "w = [(''price'', w_price), (''performance'', w_perf), (''battery'', w_batt), (''screen'', w_scr)]"
    by (auto simp: map_eq_Cons_conv)
  from compute_weights_props(2,3) [OF assms]
  have "0 \<le> w_price" "0 \<le> w_perf" "0 \<le> w_batt" "0 \<le> w_scr" "w_price + w_perf + w_batt + w_scr = 1"
    unfolding w by simp_all
  with w show thesis by (rule that)
qed

lemma score_continuous_four:
  "score_continuous pd_num df cat
     [(''price'', w_price), (''performance'', w_perf), (''battery'', w_batt), (''screen'', w_scr)]
   = Inr (map (\<lambda>i. w_price * (price_score pd_num df ! i)
                  + w_perf * (performance_score pd_num df cat ! i)
                  + w_batt * (battery_score pd_num df ! i)
                  + w_scr * (screen_score pd_num df ! i))
            [0 ..< length (rows df)])"
  by (simp add: score_continuous_def weight_def)

lemma known_category_normal:
  assumes "c \<in> {''laptop'', ''phone'', ''tablet'', ''monitor''}"
  shows "lower (strip c) = c"
  using assms by (auto simp: strip_def is_space_def lower_def lower_char_def)

lemma filtered_first_category:
  assumes "filter_products py_str py_float pd_num catalog intent user_query = Inr df"
    and "rows df \<noteq> []"
  shows "first_category df = Inr (detect_category intent user_query)"
    and "\<not> df_empty df"
proof -
  note f = filtered_rows_category [OF assms(1)]
  note cats = f(1) and cols = f(2) and c = f(3)
  from assms(2) obtain r rs where rs: "rows df = r # rs" by (cases "rows df") auto
  with cats have "cell_at r ''category'' = Str (detect_category intent user_query)" by simp
  then show "first_category df = Inr (detect_category intent user_query)"
    using c cols rs known_category_normal [OF detect_category_known [of intent user_query]]
    by (simp add: first_category_def)
  show "\<not> df_empty df"
    using assms(2) c cols by (auto simp: df_empty_def)
qed

lemma rank_products_unfold:
  assumes "\<not> df_empty df"
    and "first_category df = Inr cat"
    and "compute_weights py_str intent cat = Inr w"
    and "score_continuous pd_num df cat w = Inr scores"
    and "goals_list py_str intent = Inr goals"
  shows "rank_products py_str pd_num sort_values chat_llm intent (Some df) =
     Inr \<lparr>r_results = map (make_result chat_llm cat goals) (ranked_rows sort_values df scores),
          r_category = Some cat, r_weights = w\<rparr>"
  using assms by (simp add: rank_products_def)

lemma with_scores_fst:
  assumes "length scores = length (rows df)"
  shows "map fst (with_scores df scores) = scores"
proof -
  have "length ss = length rs \<Longrightarrow>
      map fst (map (\<lambda>(r, s). (s, f r s)) (zip rs ss)) = ss" for rs :: "row list" and ss :: "rat list"
      and f :: "row \<Rightarrow> rat \<Rightarrow> row"
    by (induction ss rs rule: list_induct2) auto
  from this [OF assms] show ?thesis by (simp add: with_scores_def)
qed

lemma make_result_fields:
  "item_id (make_result chat_llm cat goals sr) = snd sr ''id''"
  "item_title (make_result chat_llm cat goals sr) = title_of (snd sr)"
  "item_score (make_result chat_llm cat goals sr) = py_round (fst sr * 100)"
  "item_explanation (make_result chat_llm cat goals sr) =
     explanation_or_placeholder (chat_llm (prompt_for (snd sr) (fst sr) cat goals))"
  by (simp_all add: make_result_def Let_def build_explanation_def)

text \<open>
  Claim C8. For every intent, \<open>rank_products\<close> applied to an absent or empty product
  set returns the ranking with no results, no category and an empty weight set, and
  raises nothing.
\<close>

theorem empty_products_empty_ranking:
  "rank_products py_str pd_num sort_values chat_llm intent None
     = Inr \<lparr>r_results = [], r_category = None, r_weights = []\<rparr>
   \<and> (df_empty df \<longrightarrow>
        rank_products py_str pd_num sort_values chat_llm intent (Some df)
          = Inr \<lparr>r_results = [], r_category = None, r_weights = []\<rparr>)"
  by (simp add: rank_products_def)

theorem empty_products_empty_ranking_witness:
  "df_empty \<lparr>columns = [''id'', ''category''], rows = []\<rparr>
   \<and> rank_products (\<lambda>v. []) (\<lambda>s. NaN) stable_descending flaky_llm
        [''primary_goals'' \<mapsto> PInt 7] (Some \<lparr>columns = [''id'', ''category''], rows = []\<rparr>)
      = Inr \<lparr>r_results = [], r_category = None, r_weights = []\<rparr>
   \<and> rank_products (\<lambda>v. []) (\<lambda>s. NaN) stable_descending flaky_llm
        [''primary_goals'' \<mapsto> PInt 7] None
      = Inr \<lparr>r_results = [], r_category = None, r_weights = []\<rparr>"
  using empty_products_empty_ranking [of "\<lambda>v. []" "\<lambda>s. NaN" stable_descending flaky_llm
      "[''primary_goals'' \<mapsto> PInt 7]" "\<lparr>columns = [''id'', ''category''], rows = []\<rparr>"]
  by (simp add: df_empty_def)

lemma compute_weights_ok:
  assumes "goal_field_ok intent"
  shows "\<exists>w. compute_weights py_str intent cat = Inr w"
proof -
  from lowered_goals_ok [OF assms] obtain goals where "lowered_goals py_str intent = Inr goals"
    by blast
  then show ?thesis by (simp add: compute_weights_def accumulated_weights_def)
qed

lemma ranked_rows_scores:
  assumes "sorts_descending sort_values" and "length scores = length (rows df)"
  shows "mset (map fst (ranked_rows sort_values df scores)) = mset scores"
    and "sorted_wrt (\<lambda>a b. fst b \<le> fst a) (ranked_rows sort_values df scores)"
    and "mset (ranked_rows sort_values df scores) = mset (with_scores df scores)"
proof -
  show m: "mset (ranked_rows sort_values df scores) = mset (with_scores df scores)"
    using assms(1) by (simp add: sorts_descending_def ranked_rows_def)
  show "sorted_wrt (\<lambda>a b. fst b \<le> fst a) (ranked_rows sort_values df scores)"
    using assms(1) by (simp add: sorts_descending_def ranked_rows_def)
  have "mset (map fst (ranked_rows sort_values df scores))
      = mset (map fst (with_scores df scores))"
    using arg_cong [OF m, of "image_mset fst"] by simp
  then show "mset (map fst (ranked_rows sort_values df scores)) = mset scores"
    by (simp only: with_scores_fst [OF assms(2)])
qed

text \<open>What the scorer computes for a non-empty frame of one known category.\<close>

lemma scorer_facts:
  assumes ne: "\<not> df_empty df"
    and fc: "first_category df = Inr cat"
    and ok: "goal_field_ok intent"
  obtains w_price w_perf w_batt w_scr scores goals where
    "compute_weights py_str intent cat =
       Inr [(''price'', w_price), (''performance'', w_perf), (''battery'', w_batt), (''screen'', w_scr)]"
    "0 \<le> w_price" "0 \<le> w_perf" "0 \<le> w_batt" "0 \<le> w_scr"
    "w_price + w_perf + w_batt + w_scr = 1"
    "score_continuous pd_num df cat
       [(''price'', w_price), (''performance'', w_perf), (''battery'', w_batt), (''screen'', w_scr)]
       = Inr scores"
    "scores = map (\<lambda>i. w_price * (price_score pd_num df ! i)
                  + w_perf * (performance_score pd_num df cat ! i)
                  + w_batt * (battery_score pd_num df ! i)
                  + w_scr * (screen_score pd_num df ! i))
            [0 ..< length (rows df)]"
    "goals_list py_str intent = Inr goals"
    "\<And>sort_values chat_llm.
       rank_products py_str pd_num sort_values chat_llm intent (Some df) =
         Inr \<lparr>r_results = map (make_result chat_llm cat goals) (ranked_rows sort_values df scores),
              r_category = Some cat,
              r_weights = [(''price'', w_price), (''performance'', w_perf),
                           (''battery'', w_batt), (''screen'', w_scr)]\<rparr>"
proof -
  from compute_weights_ok [OF ok] obtain w where w: "compute_weights py_str intent cat = Inr w"
    by blast
  from four_weights [OF w] obtain w_price w_perf w_batt w_scr where
    weq: "w = [(''price'', w_price), (''performance'', w_perf), (''battery'', w_batt), (''screen'', w_scr)]"
    and nn: "0 \<le> w_price" "0 \<le> w_perf" "0 \<le> w_batt" "0 \<le> w_scr"
    and total: "w_price + w_perf + w_batt + w_scr = 1"
    by blast
  define scores where "scores = map (\<lambda>i. w_price * (price_score pd_num df ! i)
                  + w_perf * (performance_score pd_num df cat ! i)
                  + w_batt * (battery_score pd_num df ! i)
                  + w_scr * (screen_score pd_num df ! i))
            [0 ..< length (rows df)]"
  have sc: "score_continuous pd_num df cat w = Inr scores"
    unfolding weq scores_def by (rule score_continuous_four)
  from goals_list_ok [OF ok] obtain goals where g: "goals_list py_str intent = Inr goals"
    by blast
  have rp: "rank_products py_str pd_num sort_values chat_llm intent (Some df) =
         Inr \<lparr>r_results = map (make_result chat_llm cat goals) (ranked_rows sort_values df scores),
              r_category = Some cat, r_weights = w\<rparr>" for sort_values chat_llm
    by (rule rank_products_unfold [OF ne fc w sc g])
  show thesis
    by (rule that [OF w [unfolded weq] nn total sc [unfolded weq] scores_def g rp [unfolded weq]])
qed

lemma score_in_unit_interval:
  assumes "0 \<le> w_price" "0 \<le> w_perf" "0 \<le> w_batt" "0 \<le> w_scr"
    and "w_price + w_perf + w_batt + w_scr = 1"
    and "i < length (rows df)"
  shows "0 \<le> w_price * (price_score pd_num df ! i)
                  + w_perf * (performance_score pd_num df cat ! i)
                  + w_batt * (battery_score pd_num df ! i)
                  + w_scr * (screen_score pd_num df ! i)
       \<and> w_price * (price_score pd_num df ! i)
                  + w_perf * (performance_score pd_num df cat ! i)
                  + w_batt * (battery_score pd_num df ! i)
                  + w_scr * (screen_score pd_num df ! i) \<le> 1"
  using assms(1-5)
proof (rule convex_combination)
  show "0 \<le> price_score pd_num df ! i \<and> price_score pd_num df ! i \<le> 1"
    unfolding price_score_def using assms(6) by (rule feature_score_range)
  show "0 \<le> performance_score pd_num df cat ! i \<and> performance_score pd_num df cat ! i \<le> 1"
    using assms(6) by (rule performance_score_range)
  show "0 \<le> battery_score pd_num df ! i \<and> battery_score pd_num df ! i \<le> 1"
    unfolding battery_score_def using assms(6) by (rule feature_score_range)
  show "0 \<le> screen_score pd_num df ! i \<and> screen_score pd_num df ! i \<le> 1"
    unfolding screen_score_def using assms(6) by (rule feature_score_range)
qed


text \<open>
  Claim C5. For a non-empty frame returned by \<open>filter_products\<close> and an intent whose
  goal field is absent, \<open>None\<close>, a string or a list, the continuous score of every
  product is the sum of the four weights times the four feature scores; the feature
  scores lie in [0,1], the weights are non-negative and sum to 1, so the score lies
  in [0,1]. The displayed score of every result is the rounding of 100 times the
  continuous score of its row, an integer between 0 and 100.
\<close>

theorem continuous_and_displayed_scores:
  assumes "filter_products py_str py_float pd_num catalog intent user_query = Inr df"
    and "rows df \<noteq> []"
    and "goal_field_ok intent"
    and "sorts_descending sort_values"
  shows "\<exists>w_price w_perf w_batt w_scr scores res.
      compute_weights py_str intent (detect_category intent user_query) =
        Inr [(''price'', w_price), (''performance'', w_perf),
             (''battery'', w_batt), (''screen'', w_scr)]
    \<and> 0 \<le> w_price \<and> 0 \<le> w_perf \<and> 0 \<le> w_batt \<and> 0 \<le> w_scr
    \<and> w_price + w_perf + w_batt + w_scr = 1
    \<and> score_continuous pd_num df (detect_category intent user_query)
          [(''price'', w_price), (''performance'', w_perf),
           (''battery'', w_batt), (''screen'', w_scr)] = Inr scores
    \<and> length scores = length (rows df)
    \<and> (\<forall>i < length (rows df).
          scores ! i =
            w_price * (price_score pd_num df ! i)
            + w_perf * (performance_score pd_num df (detect_category intent user_query) ! i)
            + w_batt * (battery_score pd_num df ! i)
            + w_scr * (screen_score pd_num df ! i)
          \<and> 0 \<le> price_score pd_num df ! i \<and> price_score pd_num df ! i \<le> 1
          \<and> 0 \<le> performance_score pd_num df (detect_category intent user_query) ! i
          \<and> performance_score pd_num df (detect_category intent user_query) ! i \<le> 1
          \<and> 0 \<le> battery_score pd_num df ! i \<and> battery_score pd_num df ! i \<le> 1
          \<and> 0 \<le> screen_score pd_num df ! i \<and> screen_score pd_num df ! i \<le> 1
          \<and> 0 \<le> scores ! i \<and> scores ! i \<le> 1)
    \<and> rank_products py_str pd_num sort_values chat_llm intent (Some df) = Inr res
    \<and> mset (map fst (ranked_rows sort_values df scores)) = mset scores
    \<and> map item_score (r_results res) =
          map (\<lambda>sr. py_round (fst sr * 100)) (ranked_rows sort_values df scores)
    \<and> (\<forall>it \<in> set (r_results res). 0 \<le> item_score it \<and> item_score it \<le> 100)"
proof -
  let ?cat = "detect_category intent user_query"
  note fc = filtered_first_category [OF assms(1,2)]
  show ?thesis
  proof (rule scorer_facts [OF fc(2) fc(1) assms(3), of py_str pd_num])
    fix w_price w_perf w_batt w_scr scores goals
    assume w: "compute_weights py_str intent ?cat =
       Inr [(''price'', w_price), (''performance'', w_perf), (''battery'', w_batt), (''screen'', w_scr)]"
      and nn: "0 \<le> w_price" "0 \<le> w_perf" "0 \<le> w_batt" "0 \<le> w_scr"
      and total: "w_price + w_perf + w_batt + w_scr = 1"
      and sc: "score_continuous pd_num df ?cat
       [(''price'', w_price), (''performance'', w_perf), (''battery'', w_batt), (''screen'', w_scr)]
       = Inr scores"
      and scores: "scores = map (\<lambda>i. w_price * (price_score pd_num df ! i)
                  + w_perf * (performance_score pd_num df ?cat ! i)
                  + w_batt * (battery_score pd_num df ! i)
                  + w_scr * (screen_score pd_num df ! i))
            [0 ..< length (rows df)]"
      and gl: "goals_list py_str intent = Inr goals"
      and rp: "\<And>sort_values chat_llm.
       rank_products py_str pd_num sort_values chat_llm intent (Some df) =
         Inr \<lparr>r_results = map (make_result chat_llm ?cat goals) (ranked_rows sort_values df scores),
              r_category = Some ?cat,
              r_weights = [(''price'', w_price), (''performance'', w_perf),
                           (''battery'', w_batt), (''screen'', w_scr)]\<rparr>"
    let ?ranked = "ranked_rows sort_values df scores"
    let ?res = "\<lparr>r_results = map (make_result chat_llm ?cat goals) ?ranked,
              r_category = Some ?cat,
              r_weights = [(''price'', w_price), (''performance'', w_perf),
                           (''battery'', w_batt), (''screen'', w_scr)]\<rparr>"
    have len: "length scores = length (rows df)"
      by (simp add: scores)
    have nth: "scores ! i =
            w_price * (price_score pd_num df ! i)
            + w_perf * (performance_score pd_num df ?cat ! i)
            + w_batt * (battery_score pd_num df ! i)
            + w_scr * (screen_score pd_num df ! i)" if "i < length (rows df)" for i
      using that by (simp add: scores)
    have unit: "0 \<le> scores ! i \<and> scores ! i \<le> 1" if "i < length (rows df)" for i
      unfolding nth [OF that] by (rule score_in_unit_interval [OF nn total that])
    have rows_fact: "\<forall>i < length (rows df).
          scores ! i =
            w_price * (price_score pd_num df ! i)
            + w_perf * (performance_score pd_num df ?cat ! i)
            + w_batt * (battery_score pd_num df ! i)
            + w_scr * (screen_score pd_num df ! i)
          \<and> 0 \<le> price_score pd_num df ! i \<and> price_score pd_num df ! i \<le> 1
          \<and> 0 \<le> performance_score pd_num df ?cat ! i
          \<and> performance_score pd_num df ?cat ! i \<le> 1
          \<and> 0 \<le> battery_score pd_num df ! i \<and> battery_score pd_num df ! i \<le> 1
          \<and> 0 \<le> screen_score pd_num df ! i \<and> screen_score pd_num df ! i \<le> 1
          \<and> 0 \<le> scores ! i \<and> scores ! i \<le> 1"
    proof (intro allI impI)
      fix i assume i: "i < length (rows df)"
      have p: "0 \<le> price_score pd_num df ! i \<and> price_score pd_num df ! i \<le> 1"
        unfolding price_score_def using i by (rule feature_score_range)
      have b: "0 \<le> battery_score pd_num df ! i \<and> battery_score pd_num df ! i \<le> 1"
        unfolding battery_score_def using i by (rule feature_score_range)
      have s: "0 \<le> screen_score pd_num df ! i \<and> screen_score pd_num df ! i \<le> 1"
        unfolding screen_score_def using i by (rule feature_score_range)
      have f: "0 \<le> performance_score pd_num df ?cat ! i
          \<and> performance_score pd_num df ?cat ! i \<le> 1"
        using i by (rule performance_score_range)
      show "scores ! i =
            w_price * (price_score pd_num df ! i)
            + w_perf * (performance_score pd_num df ?cat ! i)
            + w_batt * (battery_score pd_num df ! i)
            + w_scr * (screen_score pd_num df ! i)
          \<and> 0 \<le> price_score pd_num df ! i \<and> price_score pd_num df ! i \<le> 1
          \<and> 0 \<le> performance_score pd_num df ?cat ! i
          \<and> performance_score pd_num df ?cat ! i \<le> 1
          \<and> 0 \<le> battery_score pd_num df ! i \<and> battery_score pd_num df ! i \<le> 1
          \<and> 0 \<le> screen_score pd_num df ! i \<and> screen_score pd_num df ! i \<le> 1
          \<and> 0 \<le> scores ! i \<and> scores ! i \<le> 1"
        by (intro conjI nth [OF i] conjunct1 [OF p] conjunct2 [OF p] conjunct1 [OF f]
            conjunct2 [OF f] conjunct1 [OF b] conjunct2 [OF b] conjunct1 [OF s] conjunct2 [OF s]
            conjunct1 [OF unit [OF i]] conjunct2 [OF unit [OF i]])
    qed
    have ms: "mset (map fst ?ranked) = mset scores"
      by (rule ranked_rows_scores(1) [OF assms(4) len])
    have shown: "map item_score (r_results ?res) = map (\<lambda>sr. py_round (fst sr * 100)) ?ranked"
      by (simp add: make_result_fields comp_def)
    have all_unit: "0 \<le> s \<and> s \<le> 1" if "s \<in> set scores" for s
    proof -
      from that obtain i where "i < length scores" "s = scores ! i"
        by (auto simp: in_set_conv_nth)
      then show ?thesis using unit [of i] len by simp
    qed
    have same: "set (map fst ?ranked) = set scores"
      using ms by (rule mset_eq_setD)
    have bounds: "\<forall>it \<in> set (r_results ?res). 0 \<le> item_score it \<and> item_score it \<le> 100"
    proof
      fix it assume "it \<in> set (r_results ?res)"
      then obtain sr where sr: "sr \<in> set ?ranked" and it: "it = make_result chat_llm ?cat goals sr"
        by auto
      from sr have "fst sr \<in> set (map fst ?ranked)" by simp
      then have "fst sr \<in> set scores" by (simp only: same)
      then have "0 \<le> fst sr \<and> fst sr \<le> 1" by (rule all_unit)
      then have "0 \<le> py_round (fst sr * 100) \<and> py_round (fst sr * 100) \<le> 100"
        using py_round_percent by blast
      then show "0 \<le> item_score it \<and> item_score it \<le> 100"
        by (simp only: it make_result_fields)
    qed
    show ?thesis
      apply (rule exI [of _ w_price], rule exI [of _ w_perf], rule exI [of _ w_batt],
          rule exI [of _ w_scr], rule exI [of _ scores], rule exI [of _ ?res])
      apply (intro conjI)
      apply (fact w nn total sc len rows_fact rp ms shown bounds)+
      done
  qed
qed

lemma no_goal_weights:
  assumes "intent ''primary_goals'' = None"
  shows "compute_weights py_str intent ''laptop'' =
    Inr [(''price'', 3 / 10), (''performance'', 2 / 5), (''battery'', 3 / 10), (''screen'', 0)]"
    and "goals_list py_str intent = Inr []"
  using assms
  by (simp_all add: compute_weights_def accumulated_weights_def lowered_goals_def goals_raw_def
      dict_get_def bump_goals_def base_weights_def renormalize_def goals_list_def)

lemma two_laptops_first_category: "first_category two_laptops = Inr ''laptop''"
  by (simp add: first_category_def two_laptops_def cell_at_def laptop_850_def strip_def
      is_space_def lower_def lower_char_def)

lemma two_laptops_features:
  "price_score pd_num two_laptops = [1, 0]"
  "performance_score pd_num two_laptops ''laptop'' = [3 / 20, 17 / 20]"
  "battery_score pd_num two_laptops = [1 / 2, 1 / 2]"
  "screen_score pd_num two_laptops = [1 / 2, 1 / 2]"
  by (simp_all add: price_score_def performance_score_def battery_score_def screen_score_def
      feature_score_def column_def columns_two_laptops two_laptops_def laptop_cells
      normalize_series_def to_numeric_def isclose_def rel_tol_def abs_tol_def)

lemma two_laptops_scores:
  "score_continuous pd_num two_laptops ''laptop''
     [(''price'', 3 / 10), (''performance'', 2 / 5), (''battery'', 3 / 10), (''screen'', 0)]
   = Inr [51 / 100, 49 / 100]"
  by (simp add: score_continuous_four two_laptops_features) (simp add: two_laptops_def)


lemma two_laptops_with_scores:
  "with_scores two_laptops [51 / 100, 49 / 100] =
     [(51 / 100, laptop_850(''score_continuous'' \<mapsto> Num (Fin (51 / 100)))),
      (49 / 100, laptop_950(''score_continuous'' \<mapsto> Num (Fin (49 / 100))))]"
  by (simp add: with_scores_def two_laptops_def)

lemma stable_descending_two:
  "b \<le> a \<Longrightarrow> stable_descending [(a, r), (b, r')] = [(a, r), (b, r')]"
  by (simp add: stable_descending_def)

lemma py_round_int: "py_round (of_int n) = n"
  by (simp add: py_round_def)

lemma py_round_numeral: "py_round (numeral n) = numeral n"
  using py_round_int [of "numeral n"] by simp

lemma laptop_ids:
  "laptop_850 ''id'' = Some (Str ''L1'')"
  "laptop_950 ''id'' = Some (Str ''L2'')"
  "laptop_900 ''id'' = Some (Str ''L3'')"
  by (simp_all add: laptop_850_def laptop_950_def laptop_900_def)

lemma laptop_fields:
  "(laptop_850(''score_continuous'' \<mapsto> c)) ''id'' = Some (Str ''L1'')"
  "(laptop_950(''score_continuous'' \<mapsto> c)) ''id'' = Some (Str ''L2'')"
  "(laptop_900(''score_continuous'' \<mapsto> c)) ''id'' = Some (Str ''L3'')"
  "title_of (laptop_850(''score_continuous'' \<mapsto> c)) = Str ''Laptop A''"
  "title_of (laptop_950(''score_continuous'' \<mapsto> c)) = Str ''Laptop B''"
  "title_of (laptop_900(''score_continuous'' \<mapsto> c)) = Str ''Laptop C''"
  by (simp_all add: laptop_850_def laptop_950_def laptop_900_def title_of_def or_else_def)

lemma low_budget_no_goals: "low_budget_intent ''primary_goals'' = None"
  by (simp add: low_budget_intent_def)

lemma low_budget_falls_back:
  "filter_products py_str float_of_digits pd_num two_laptops low_budget_intent user_query
     = Inr two_laptops"
proof -
  have "''category'' \<in> set (columns two_laptops)"
    by (simp add: columns_two_laptops)
  then show ?thesis
    by (simp add: filter_products_result low_budget_category low_budget_keeps_nothing
        rows_two_laptops two_laptops_eq)
qed

lemma two_laptops_ranking:
  "rank_products py_str pd_num stable_descending steady_llm low_budget_intent (Some two_laptops) =
     Inr \<lparr>r_results =
            [\<lparr>item_id = Some (Str ''L1''), item_title = Str ''Laptop A'', item_score = 51,
              item_explanation = ''A good fit.''\<rparr>,
             \<lparr>item_id = Some (Str ''L2''), item_title = Str ''Laptop B'', item_score = 49,
              item_explanation = ''A good fit.''\<rparr>],
          r_category = Some ''laptop'',
          r_weights = [(''price'', 3 / 10), (''performance'', 2 / 5), (''battery'', 3 / 10),
                       (''screen'', 0)]\<rparr>"
proof -
  have ne: "\<not> df_empty two_laptops"
    by (simp add: df_empty_def two_laptops_def)
  show ?thesis
    unfolding rank_products_unfold [OF ne two_laptops_first_category
        no_goal_weights(1) [of low_budget_intent, OF low_budget_no_goals] two_laptops_scores
        no_goal_weights(2) [of low_budget_intent, OF low_budget_no_goals]]
    by (simp add: ranked_rows_def two_laptops_with_scores stable_descending_two
        make_result_def build_explanation_def explanation_or_placeholder_def steady_llm_def
        laptop_fields laptop_ids py_round_numeral)
qed

theorem continuous_and_displayed_scores_witness:
  "filter_products (\<lambda>v. []) float_of_digits (\<lambda>s. NaN) two_laptops low_budget_intent None
     = Inr two_laptops
   \<and> rows two_laptops \<noteq> []
   \<and> goal_field_ok low_budget_intent
   \<and> sorts_descending stable_descending
   \<and> score_continuous (\<lambda>s. NaN) two_laptops ''laptop''
        [(''price'', 3 / 10), (''performance'', 2 / 5), (''battery'', 3 / 10), (''screen'', 0)]
      = Inr [51 / 100, 49 / 100]
   \<and> (\<exists>res. rank_products (\<lambda>v. []) (\<lambda>s. NaN) stable_descending steady_llm low_budget_intent
               (Some two_laptops) = Inr res
           \<and> map item_score (r_results res) = [51, 49]
           \<and> (\<forall>it \<in> set (r_results res). 0 \<le> item_score it \<and> item_score it \<le> 100))"
proof -
  have h1: "filter_products (\<lambda>v. []) float_of_digits (\<lambda>s. NaN) two_laptops low_budget_intent None
     = Inr two_laptops"
    by (rule low_budget_falls_back)
  have h2: "rows two_laptops \<noteq> []" by (simp add: two_laptops_def)
  have h3: "goal_field_ok low_budget_intent" by (simp add: goal_field_ok_def low_budget_no_goals)
  note h4 = stable_descending_sorts
  from continuous_and_displayed_scores [OF h1 h2 h3 h4, of steady_llm]
  obtain res where
    res: "rank_products (\<lambda>v. []) (\<lambda>s. NaN) stable_descending steady_llm low_budget_intent
               (Some two_laptops) = Inr res"
    and bounds: "\<forall>it \<in> set (r_results res). 0 \<le> item_score it \<and> item_score it \<le> 100"
    by (elim exE conjE)
  from res have "map item_score (r_results res) = [51, 49]"
    unfolding two_laptops_ranking by auto
  with res bounds have "\<exists>res. rank_products (\<lambda>v. []) (\<lambda>s. NaN) stable_descending steady_llm
               low_budget_intent (Some two_laptops) = Inr res
           \<and> map item_score (r_results res) = [51, 49]
           \<and> (\<forall>it \<in> set (r_results res). 0 \<le> item_score it \<and> item_score it \<le> 100)"
    by (intro exI [of _ res] conjI)
  with h1 h2 h3 h4 two_laptops_scores [of "\<lambda>s. NaN"] show ?thesis
    by (intro conjI)
qed







text \<open>With a stable sort, rows of equal score keep their input order.\<close>

lemma stable_descending_keeps_ties:
  "filter (\<lambda>sr. fst sr = k) (stable_descending xs) = filter (\<lambda>sr. fst sr = k) xs"
  by (simp add: stable_descending_def rev_filter [symmetric] sort_key_stable)

lemma twin_cells:
  "cell_at twin_1 ''price_usd'' = Num (Fin 700)"
  "cell_at twin_2 ''price_usd'' = Num (Fin 700)"
  "cell_at twin_1 ''ram_gb'' = Num (Fin 8)"
  "cell_at twin_2 ''ram_gb'' = Num (Fin 8)"
  "cell_at twin_1 ''category'' = Str ''laptop''"
  "cell_at twin_2 ''category'' = Str ''laptop''"
  by (simp_all add: cell_at_def twin_1_def twin_2_def)

lemma twin_fields:
  "(twin_1(''score_continuous'' \<mapsto> c)) ''id'' = Some (Str ''T1'')"
  "(twin_2(''score_continuous'' \<mapsto> c)) ''id'' = Some (Str ''T2'')"
  "twin_1 ''id'' = Some (Str ''T1'')"
  "twin_2 ''id'' = Some (Str ''T2'')"
  "title_of (twin_1(''score_continuous'' \<mapsto> c)) = Str ''Twin one''"
  "title_of (twin_2(''score_continuous'' \<mapsto> c)) = Str ''Twin two''"
  by (simp_all add: twin_1_def twin_2_def title_of_def or_else_def)

lemma columns_twin_laptops:
  "columns twin_laptops = [''id'', ''title'', ''category'', ''price_usd'', ''ram_gb'']"
  by (simp add: twin_laptops_def)

lemma twin_first_category: "first_category twin_laptops = Inr ''laptop''"
  by (simp add: first_category_def twin_laptops_def twin_cells strip_def
      is_space_def lower_def lower_char_def)

lemma twin_features:
  "price_score pd_num twin_laptops = [1 / 2, 1 / 2]"
  "performance_score pd_num twin_laptops ''laptop'' = [1 / 2, 1 / 2]"
  "battery_score pd_num twin_laptops = [1 / 2, 1 / 2]"
  "screen_score pd_num twin_laptops = [1 / 2, 1 / 2]"
  by (simp_all add: price_score_def performance_score_def battery_score_def screen_score_def
      feature_score_def column_def columns_twin_laptops twin_laptops_def twin_cells
      normalize_series_def to_numeric_def isclose_def rel_tol_def abs_tol_def)

lemma twin_scores:
  "score_continuous pd_num twin_laptops ''laptop''
     [(''price'', 3 / 10), (''performance'', 2 / 5), (''battery'', 3 / 10), (''screen'', 0)]
   = Inr [1 / 2, 1 / 2]"
  by (simp add: score_continuous_four twin_features) (simp add: twin_laptops_def)

lemma empty_intent_category: "detect_category Map.empty None = ''laptop''"
  by (simp add: detect_category_def dict_get_def CATEGORY_KEYWORDS_def lower_def)

lemma twin_filtered:
  "filter_products py_str py_float pd_num twin_laptops Map.empty None = Inr twin_laptops"
proof -
  have "''category'' \<in> set (columns twin_laptops)"
    by (simp add: columns_twin_laptops)
  moreover have "numeric_filters py_str py_float pd_num cols Map.empty rs = rs" for cols rs
    by (simp add: numeric_filters_def at_least_def)
  ultimately show ?thesis
    by (simp add: filter_products_result empty_intent_category category_rows_def)
      (simp add: twin_laptops_def twin_cells)
qed









lemma kernel_two_rows:
  "nargsort_descending avx512_argsort [(1 / 2, r1), (1 / 2, r2)] = [(1 / 2, r1), (1 / 2, r2)]"
  by (simp add: nargsort_descending_def kernel_two upt_conv_Cons)

text \<open>
  Two rows of equal score come back from the register kernel in input order: the two
  twins, T1 before T2.
\<close>

lemma twin_laptops_ranking:
  "rank_products py_str pd_num (nargsort_descending avx512_argsort) steady_llm Map.empty
        (Some twin_laptops) =
      Inr \<lparr>r_results =
            [\<lparr>item_id = Some (Str ''T1''), item_title = Str ''Twin one'', item_score = 50,
              item_explanation = ''A good fit.''\<rparr>,
             \<lparr>item_id = Some (Str ''T2''), item_title = Str ''Twin two'', item_score = 50,
              item_explanation = ''A good fit.''\<rparr>],
          r_category = Some ''laptop'',
          r_weights = [(''price'', 3 / 10), (''performance'', 2 / 5), (''battery'', 3 / 10),
                       (''screen'', 0)]\<rparr>"
proof -
  have ne: "\<not> df_empty twin_laptops"
    by (simp add: df_empty_def twin_laptops_def)
  have none: "Map.empty ''primary_goals'' = (None :: pyval option)" by simp
  have pairs: "with_scores twin_laptops [1 / 2, 1 / 2] =
     [(1 / 2, twin_1(''score_continuous'' \<mapsto> Num (Fin (1 / 2)))),
      (1 / 2, twin_2(''score_continuous'' \<mapsto> Num (Fin (1 / 2))))]"
    by (simp add: with_scores_def twin_laptops_def)
  show ?thesis
    unfolding rank_products_unfold [OF ne twin_first_category
        no_goal_weights(1) [of Map.empty, OF none] twin_scores
        no_goal_weights(2) [of Map.empty, OF none]]
    by (simp add: ranked_rows_def pairs kernel_two_rows
        make_result_def build_explanation_def explanation_or_placeholder_def steady_llm_def
        twin_fields py_round_numeral)
qed



text \<open>
  Whatever the text generator does, \<open>rank_products\<close> sends it the same prompts in the
  same order and builds its result from the same ranked rows.
\<close>

lemma rank_products_form:
  assumes "rank_products py_str pd_num sort_values chat_llm intent products = Inr res"
  obtains ranked cat goals c w where
    "\<And>llm. rank_products py_str pd_num sort_values llm intent products =
        Inr \<lparr>r_results = map (make_result llm cat goals) ranked, r_category = c, r_weights = w\<rparr>"
proof (cases "products = None \<or> (\<exists>df. products = Some df \<and> df_empty df)")
  case True
  then have "rank_products py_str pd_num sort_values llm intent products =
        Inr \<lparr>r_results = map (make_result llm [] []) [], r_category = None, r_weights = []\<rparr>"
    for llm
    by (auto simp: rank_products_def)
  then show thesis by (rule that)
next
  case False
  then obtain df where df: "products = Some df" and ne: "\<not> df_empty df"
    by (cases products) auto
  from assms obtain cat where fc: "first_category df = Inr cat"
    unfolding df by (cases "first_category df") (simp_all add: rank_products_def ne)
  from assms obtain w where w: "compute_weights py_str intent cat = Inr w"
    unfolding df
    by (cases "compute_weights py_str intent cat") (simp_all add: rank_products_def ne fc)
  from assms obtain scores where sc: "score_continuous pd_num df cat w = Inr scores"
    unfolding df
    by (cases "score_continuous pd_num df cat w") (simp_all add: rank_products_def ne fc w)
  from assms obtain goals where g: "goals_list py_str intent = Inr goals"
    unfolding df
    by (cases "goals_list py_str intent") (simp_all add: rank_products_def ne fc w sc)
  have "rank_products py_str pd_num sort_values llm intent products =
        Inr \<lparr>r_results = map (make_result llm cat goals) (ranked_rows sort_values df scores),
             r_category = Some cat, r_weights = w\<rparr>" for llm
    unfolding df by (rule rank_products_unfold [OF ne fc w sc g])
  then show thesis by (rule that)
qed

lemma placeholder_nonempty: "explanation_or_placeholder (Inl e) \<noteq> []"
  by (simp add: explanation_or_placeholder_def)

text \<open>
  Claim C9. Take a run of \<open>rank_products\<close> with a text generator \<open>steady\<close> and the
  same run with a generator \<open>flaky\<close> that raises on some prompts. The second run
  returns as well, with the same category and weights, and with the same items in
  the same order: identifiers, titles and scores agree position by position. Both
  runs send the same prompts; the explanation of an item is the generated text where
  the generator answered and the placeholder, which is never empty, where it raised.
\<close>

theorem explanation_failure_keeps_items:
  assumes "rank_products py_str pd_num sort_values steady intent products = Inr res"
  shows "\<exists>res' prompts.
      rank_products py_str pd_num sort_values flaky intent products = Inr res'
    \<and> r_category res' = r_category res
    \<and> r_weights res' = r_weights res
    \<and> map item_id (r_results res') = map item_id (r_results res)
    \<and> map item_title (r_results res') = map item_title (r_results res)
    \<and> map item_score (r_results res') = map item_score (r_results res)
    \<and> map item_explanation (r_results res) =
          map (\<lambda>p. explanation_or_placeholder (steady p)) prompts
    \<and> map item_explanation (r_results res') =
          map (\<lambda>p. explanation_or_placeholder (flaky p)) prompts
    \<and> explanation_or_placeholder (Inr text) = text
    \<and> explanation_or_placeholder (Inl e) = ''(Could not generate explanation: '' @ e @ '')''
    \<and> explanation_or_placeholder (Inl e) \<noteq> []"
proof (rule rank_products_form [OF assms])
  fix ranked cat goals c w
  assume form: "\<And>llm. rank_products py_str pd_num sort_values llm intent products =
        Inr \<lparr>r_results = map (make_result llm cat goals) ranked, r_category = c, r_weights = w\<rparr>"
  let ?res' = "\<lparr>r_results = map (make_result flaky cat goals) ranked, r_category = c,
                r_weights = w\<rparr>"
  let ?prompts = "map (\<lambda>sr. prompt_for (snd sr) (fst sr) cat goals) ranked"
  have res: "res = \<lparr>r_results = map (make_result steady cat goals) ranked, r_category = c,
                r_weights = w\<rparr>"
    using assms form [of steady] by simp
  have run: "rank_products py_str pd_num sort_values flaky intent products = Inr ?res'"
    by (rule form)
  have cat: "r_category ?res' = r_category res" and ws: "r_weights ?res' = r_weights res"
    by (simp_all add: res)
  have ids: "map item_id (r_results ?res') = map item_id (r_results res)"
    and titles: "map item_title (r_results ?res') = map item_title (r_results res)"
    and shown: "map item_score (r_results ?res') = map item_score (r_results res)"
    by (simp_all add: res make_result_fields)
  have ex1: "map item_explanation (r_results res) =
          map (\<lambda>p. explanation_or_placeholder (steady p)) ?prompts"
    by (simp add: res make_result_fields comp_def)
  have ex2: "map item_explanation (r_results ?res') =
          map (\<lambda>p. explanation_or_placeholder (flaky p)) ?prompts"
    by (simp add: make_result_fields comp_def)
  have ok: "explanation_or_placeholder (Inr text) = text"
    and failed: "explanation_or_placeholder (Inl e) = ''(Could not generate explanation: '' @ e @ '')''"
    by (simp_all add: explanation_or_placeholder_def)
  show ?thesis
    apply (rule exI [of _ ?res'], rule exI [of _ ?prompts])
    apply (intro conjI)
    apply (fact run cat ws ids titles shown ex1 ex2 ok failed placeholder_nonempty)+
    done
qed


lemma three_cells:
  "cell_at laptop_900 ''price_usd'' = Num (Fin 900)"
  "cell_at laptop_900 ''ram_gb'' = Num (Fin 24)"
  by (simp_all add: cell_at_def laptop_900_def)

lemma columns_three_laptops:
  "columns three_laptops = [''id'', ''title'', ''category'', ''price_usd'', ''ram_gb'']"
  by (simp add: three_laptops_def)

lemma three_first_category: "first_category three_laptops = Inr ''laptop''"
  by (simp add: first_category_def three_laptops_def cell_at_def laptop_850_def strip_def
      is_space_def lower_def lower_char_def)

lemma three_features:
  "price_score pd_num three_laptops = [1, 0, 1 / 2]"
  "performance_score pd_num three_laptops ''laptop'' = [3 / 20, 17 / 20, 1 / 2]"
  "battery_score pd_num three_laptops = [1 / 2, 1 / 2, 1 / 2]"
  "screen_score pd_num three_laptops = [1 / 2, 1 / 2, 1 / 2]"
  by (simp_all add: price_score_def performance_score_def battery_score_def screen_score_def
      feature_score_def column_def columns_three_laptops three_laptops_def laptop_cells
      three_cells normalize_series_def to_numeric_def isclose_def rel_tol_def abs_tol_def)

lemma three_scores:
  "score_continuous pd_num three_laptops ''laptop''
     [(''price'', 3 / 10), (''performance'', 2 / 5), (''battery'', 3 / 10), (''screen'', 0)]
   = Inr [51 / 100, 49 / 100, 1 / 2]"
  by (simp add: score_continuous_four three_features) (simp add: three_laptops_def)

lemma three_ranked:
  "ranked_rows stable_descending three_laptops [51 / 100, 49 / 100, 1 / 2] =
     [(51 / 100, laptop_850(''score_continuous'' \<mapsto> Num (Fin (51 / 100)))),
      (1 / 2, laptop_900(''score_continuous'' \<mapsto> Num (Fin (1 / 2)))),
      (49 / 100, laptop_950(''score_continuous'' \<mapsto> Num (Fin (49 / 100))))]"
  by (simp add: ranked_rows_def with_scores_def three_laptops_def stable_descending_def)

lemma three_ranking:
  "rank_products py_str pd_num stable_descending llm Map.empty (Some three_laptops) =
     Inr \<lparr>r_results = map (make_result llm ''laptop'' [])
            [(51 / 100, laptop_850(''score_continuous'' \<mapsto> Num (Fin (51 / 100)))),
             (1 / 2, laptop_900(''score_continuous'' \<mapsto> Num (Fin (1 / 2)))),
             (49 / 100, laptop_950(''score_continuous'' \<mapsto> Num (Fin (49 / 100))))],
          r_category = Some ''laptop'',
          r_weights = [(''price'', 3 / 10), (''performance'', 2 / 5), (''battery'', 3 / 10),
                       (''screen'', 0)]\<rparr>"
proof -
  have ne: "\<not> df_empty three_laptops"
    by (simp add: df_empty_def three_laptops_def)
  have none: "Map.empty ''primary_goals'' = (None :: pyval option)" by simp
  show ?thesis
    unfolding rank_products_unfold [OF ne three_first_category
        no_goal_weights(1) [of Map.empty, OF none] three_scores
        no_goal_weights(2) [of Map.empty, OF none]]
    by (simp only: three_ranked)
qed

lemma three_steady:
  "rank_products py_str pd_num stable_descending steady_llm Map.empty (Some three_laptops) =
     Inr \<lparr>r_results =
            [\<lparr>item_id = Some (Str ''L1''), item_title = Str ''Laptop A'', item_score = 51,
              item_explanation = ''A good fit.''\<rparr>,
             \<lparr>item_id = Some (Str ''L3''), item_title = Str ''Laptop C'', item_score = 50,
              item_explanation = ''A good fit.''\<rparr>,
             \<lparr>item_id = Some (Str ''L2''), item_title = Str ''Laptop B'', item_score = 49,
              item_explanation = ''A good fit.''\<rparr>],
          r_category = Some ''laptop'',
          r_weights = [(''price'', 3 / 10), (''performance'', 2 / 5), (''battery'', 3 / 10),
                       (''screen'', 0)]\<rparr>"
  unfolding three_ranking
  by (simp add: make_result_def build_explanation_def explanation_or_placeholder_def
      steady_llm_def laptop_fields laptop_ids py_round_numeral)

lemma three_flaky:
  "rank_products py_str pd_num stable_descending flaky_llm Map.empty (Some three_laptops) =
     Inr \<lparr>r_results =
            [\<lparr>item_id = Some (Str ''L1''), item_title = Str ''Laptop A'', item_score = 51,
              item_explanation = ''A good fit.''\<rparr>,
             \<lparr>item_id = Some (Str ''L3''), item_title = Str ''Laptop C'', item_score = 50,
              item_explanation = ''(Could not generate explanation: timed out)''\<rparr>,
             \<lparr>item_id = Some (Str ''L2''), item_title = Str ''Laptop B'', item_score = 49,
              item_explanation = ''A good fit.''\<rparr>],
          r_category = Some ''laptop'',
          r_weights = [(''price'', 3 / 10), (''performance'', 2 / 5), (''battery'', 3 / 10),
                       (''screen'', 0)]\<rparr>"
  unfolding three_ranking
  by (simp add: make_result_def build_explanation_def explanation_or_placeholder_def
      flaky_llm_def prompt_for_def laptop_fields laptop_ids py_round_numeral)

theorem explanation_failure_keeps_items_witness:
  "rank_products (\<lambda>v. []) (\<lambda>s. NaN) stable_descending steady_llm Map.empty (Some three_laptops) =
     Inr \<lparr>r_results =
            [\<lparr>item_id = Some (Str ''L1''), item_title = Str ''Laptop A'', item_score = 51,
              item_explanation = ''A good fit.''\<rparr>,
             \<lparr>item_id = Some (Str ''L3''), item_title = Str ''Laptop C'', item_score = 50,
              item_explanation = ''A good fit.''\<rparr>,
             \<lparr>item_id = Some (Str ''L2''), item_title = Str ''Laptop B'', item_score = 49,
              item_explanation = ''A good fit.''\<rparr>],
          r_category = Some ''laptop'',
          r_weights = [(''price'', 3 / 10), (''performance'', 2 / 5), (''battery'', 3 / 10),
                       (''screen'', 0)]\<rparr>
   \<and> (\<exists>res'. rank_products (\<lambda>v. []) (\<lambda>s. NaN) stable_descending flaky_llm Map.empty
                (Some three_laptops) = Inr res'
            \<and> map item_id (r_results res') =
                [Some (Str ''L1''), Some (Str ''L3''), Some (Str ''L2'')]
            \<and> map item_score (r_results res') = [51, 50, 49]
            \<and> map item_explanation (r_results res') =
                [''A good fit.'', ''(Could not generate explanation: timed out)'',
                 ''A good fit.''])"
proof -
  note steady = three_steady [of "\<lambda>v. []" "\<lambda>s. NaN"]
  from explanation_failure_keeps_items [OF steady, of flaky_llm "''A good fit.''" "''timed out''"]
  obtain res' where
    run: "rank_products (\<lambda>v. []) (\<lambda>s. NaN) stable_descending flaky_llm Map.empty
                (Some three_laptops) = Inr res'"
    and ids: "map item_id (r_results res') =
        map item_id (r_results \<lparr>r_results =
            [\<lparr>item_id = Some (Str ''L1''), item_title = Str ''Laptop A'', item_score = 51,
              item_explanation = ''A good fit.''\<rparr>,
             \<lparr>item_id = Some (Str ''L3''), item_title = Str ''Laptop C'', item_score = 50,
              item_explanation = ''A good fit.''\<rparr>,
             \<lparr>item_id = Some (Str ''L2''), item_title = Str ''Laptop B'', item_score = 49,
              item_explanation = ''A good fit.''\<rparr>],
          r_category = Some ''laptop'',
          r_weights = [(''price'', 3 / 10), (''performance'', 2 / 5), (''battery'', 3 / 10),
                       (''screen'', 0)]\<rparr>)"
    and shown: "map item_score (r_results res') =
        map item_score (r_results \<lparr>r_results =
            [\<lparr>item_id = Some (Str ''L1''), item_title = Str ''Laptop A'', item_score = 51,
              item_explanation = ''A good fit.''\<rparr>,
             \<lparr>item_id = Some (Str ''L3''), item_title = Str ''Laptop C'', item_score = 50,
              item_explanation = ''A good fit.''\<rparr>,
             \<lparr>item_id = Some (Str ''L2''), item_title = Str ''Laptop B'', item_score = 49,
              item_explanation = ''A good fit.''\<rparr>],
          r_category = Some ''laptop'',
          r_weights = [(''price'', 3 / 10), (''performance'', 2 / 5), (''battery'', 3 / 10),
                       (''screen'', 0)]\<rparr>)"
    by (elim exE conjE)
  from run have "map item_explanation (r_results res') =
                [''A good fit.'', ''(Could not generate explanation: timed out)'',
                 ''A good fit.'']"
    unfolding three_flaky by auto
  moreover from ids have "map item_id (r_results res') =
                [Some (Str ''L1''), Some (Str ''L3''), Some (Str ''L2'')]"
    by simp
  moreover from shown have "map item_score (r_results res') = [51, 50, 49]"
    by simp
  ultimately have "\<exists>res'. rank_products (\<lambda>v. []) (\<lambda>s. NaN) stable_descending flaky_llm Map.empty
                (Some three_laptops) = Inr res'
            \<and> map item_id (r_results res') =
                [Some (Str ''L1''), Some (Str ''L3''), Some (Str ''L2'')]
            \<and> map item_score (r_results res') = [51, 50, 49]
            \<and> map item_explanation (r_results res') =
                [''A good fit.'', ''(Could not generate explanation: timed out)'',
                 ''A good fit.'']"
    using run by (intro exI [of _ res'] conjI)
  with steady show ?thesis by (intro conjI)
qed

end
